theory Spec2Isabelle
  imports Complex_Main "HOL-Library.Multiset" "HOL-Library.AList"
begin

section \<open>Data model\<close>

text \<open>
  The application is written in JavaScript, so a field can hold any value. The time-valued
  fields (\<open>achievedAt\<close>, \<open>createdAt\<close>, \<open>updatedAt\<close>) take the values the
  code produces for them: the field is missing (\<open>Undefined\<close>), a \<open>Date\<close> object (a valid one
  with its time in milliseconds, or \<open>Invalid Date\<close>), and, in a stored JSON document, the ISO
  string of a time or \<open>null\<close>.
\<close>

datatype js_time = Undefined | Null | InvalidDate | DateMs int | IsoString int

text \<open>
  Score values are the finite JavaScript numbers, read as rationals: on finite numbers
  \<open>a < b\<close> and the sign of \<open>a - b\<close> are those of the rationals. \<open>NaN\<close> and the infinities
  are left out of the store's model (they appear in the form, which rejects them).
\<close>

record score =
  score_id :: string
  playerId :: string
  playerName :: string
  score_value :: rat
  isTime :: bool
  achievedAt :: js_time
  score_notes :: "string option"

record game =
  game_id :: string
  game_name :: string
  description :: "string option"
  isTimeBased :: bool
  scores :: "score list"
  createdAt :: js_time
  updatedAt :: js_time

record player =
  player_id :: string
  player_name :: string
  player_createdAt :: js_time

datatype sort_order = BEST_FIRST | WORST_FIRST | NEWEST_FIRST | OLDEST_FIRST

record score_filter =
  filter_playerId :: "string option"
  dateFrom :: js_time
  dateTo :: js_time
  filter_limit :: "int option"

record leaderboard_entry =
  player :: player
  bestScore :: score

text \<open>\<open>ApiResponse\<close>: \<open>{success, data?, error?}\<close>.\<close>

datatype 'a api_response =
  ApiResponse (success: bool) (data: "'a option") (resp_error: "string option")

text \<open>
  What awaiting a storage call gives the store: a response, or an exception (with its message
  when the thrown value is an \<open>Error\<close>).
\<close>

datatype 'a outcome = Resolved "'a api_response" | Rejected "string option"

record summary =
  summary_id :: string
  summary_name :: string
  summary_updatedAt :: js_time

text \<open>
  The storage service handed to the store's constructor: any object with these four methods,
  over a backend state of its own.
\<close>

record 'b storage_service =
  svc_saveGame :: "game \<Rightarrow> 'b \<Rightarrow> bool outcome \<times> 'b"
  svc_loadGame :: "string \<Rightarrow> 'b \<Rightarrow> game outcome \<times> 'b"
  svc_listGames :: "'b \<Rightarrow> summary list outcome \<times> 'b"
  svc_deleteGame :: "string \<Rightarrow> 'b \<Rightarrow> bool outcome \<times> 'b"

record game_store =
  games :: "game list"
  currentGame :: "game option"
  players :: "player list"
  isLoading :: bool
  error :: "string option"

section \<open>JavaScript built-ins used by the code\<close>

text \<open>
  \<open>Array.prototype.sort(cmp)\<close> is stable, and for a consistent comparator its result is
  the one stable sorted arrangement; insertion from the right computes it. An element stays in
  front of the elements it compares equal to (\<open>cmp x y \<le> 0\<close>).
\<close>

fun insert_cmp :: "('a \<Rightarrow> 'a \<Rightarrow> rat) \<Rightarrow> 'a \<Rightarrow> 'a list \<Rightarrow> 'a list" where
  "insert_cmp cmp x [] = [x]"
| "insert_cmp cmp x (y # ys) = (if cmp x y \<le> 0 then x # y # ys else y # insert_cmp cmp x ys)"

definition js_sort :: "('a \<Rightarrow> 'a \<Rightarrow> rat) \<Rightarrow> 'a list \<Rightarrow> 'a list" where
  "js_sort cmp xs = foldr (insert_cmp cmp) xs []"

text \<open>\<open>xs.slice(0, n)\<close>: a negative \<open>n\<close> counts from the end.\<close>

definition slice0 :: "int \<Rightarrow> 'a list \<Rightarrow> 'a list" where
  "slice0 n xs = (if n < 0 then take (nat (int (length xs) + n)) xs else take (nat n) xs)"

text \<open>\<open>xs.findIndex(p)\<close>, with \<open>None\<close> for -1.\<close>

fun findIndex :: "('a \<Rightarrow> bool) \<Rightarrow> 'a list \<Rightarrow> nat option" where
  "findIndex P [] = None"
| "findIndex P (x # xs) = (if P x then Some 0 else map_option Suc (findIndex P xs))"

text \<open>\<open>d.getTime()\<close> of a \<open>Date\<close>: \<open>None\<close> is \<open>NaN\<close>. \<open>is_Date\<close> tells the values that have the method.\<close>

fun is_Date :: "js_time \<Rightarrow> bool" where
  "is_Date (DateMs t) = True"
| "is_Date InvalidDate = True"
| "is_Date _ = False"

fun getTime :: "js_time \<Rightarrow> int option" where
  "getTime (DateMs t) = Some t"
| "getTime _ = None"

text \<open>
  \<open>ToNumber\<close> of a time-valued field, as the relational operators apply it (\<open>None\<close> is \<open>NaN\<close>):
  \<open>null\<close> is 0, a date is its time, an ISO string is not a numeric literal. (Two strings
  would be compared as strings; the filter's dates are \<open>Date\<close> objects.)
\<close>

fun to_number :: "js_time \<Rightarrow> int option" where
  "to_number (DateMs t) = Some t"
| "to_number Null = Some 0"
| "to_number _ = None"

definition js_ge :: "js_time \<Rightarrow> js_time \<Rightarrow> bool" where
  "js_ge a b = (case (to_number a, to_number b) of (Some x, Some y) \<Rightarrow> x \<ge> y | _ \<Rightarrow> False)"

definition js_le :: "js_time \<Rightarrow> js_time \<Rightarrow> bool" where
  "js_le a b = (case (to_number a, to_number b) of (Some x, Some y) \<Rightarrow> x \<le> y | _ \<Rightarrow> False)"

text \<open>Truthiness of a time-valued field: \<open>undefined\<close> and \<open>null\<close> are falsy, objects and ISO strings truthy.\<close>

fun truthy_time :: "js_time \<Rightarrow> bool" where
  "truthy_time Undefined = False"
| "truthy_time Null = False"
| "truthy_time _ = True"

text \<open>\<open>new Date(v)\<close> for the values a time-valued field takes.\<close>

fun new_Date :: "js_time \<Rightarrow> js_time" where
  "new_Date Undefined = InvalidDate"
| "new_Date Null = DateMs 0"
| "new_Date InvalidDate = InvalidDate"
| "new_Date (DateMs t) = DateMs t"
| "new_Date (IsoString t) = DateMs t"

text \<open>\<open>e || d\<close> on an optional string: \<open>undefined\<close> and the empty string are falsy.\<close>

definition or_default :: "string option \<Rightarrow> string \<Rightarrow> string" where
  "or_default e d = (case e of None \<Rightarrow> d | Some m \<Rightarrow> if m = [] then d else m)"

text \<open>\<open>error instanceof Error ? error.message : "Unknown error"\<close>.\<close>

definition error_message :: "string option \<Rightarrow> string" where
  "error_message e = (case e of None \<Rightarrow> ''Unknown error'' | Some m \<Rightarrow> m)"

section \<open>GameStore\<close>

text \<open>
  Each asynchronous method is one atomic step on the store and the backend: the event loop runs
  one of them to completion before the next visible change. \<open>uuidv4()\<close> and \<open>new Date()\<close>
  are inputs (\<open>new_id\<close>, \<open>now\<close>). The \<open>finally\<close> block clears \<open>isLoading\<close> on every path.
\<close>

definition createGame ::
  "'b storage_service \<Rightarrow> string \<Rightarrow> string \<Rightarrow> string option \<Rightarrow> bool \<Rightarrow> game_store \<times> 'b
     \<Rightarrow> string option \<times> game_store \<times> 'b" where
  "createGame svc new_id name descr isTimeBased' sb =
     (let st = (fst sb)\<lparr>isLoading := True, error := None\<rparr>;
          newGame = \<lparr>game_id = new_id, game_name = name, description = descr,
                     isTimeBased = isTimeBased', scores = [],
                     createdAt = Undefined, updatedAt = Undefined\<rparr>;
          (res, b') = svc_saveGame svc newGame (snd sb)
      in case res of
           Rejected e \<Rightarrow> (None, st\<lparr>error := Some (error_message e), isLoading := False\<rparr>, b')
         | Resolved response \<Rightarrow>
             if \<not> success response
             then (None, st\<lparr>error := Some (or_default (resp_error response) ''Failed to save game''),
                            isLoading := False\<rparr>, b')
             else (Some new_id, st\<lparr>games := games st @ [newGame], isLoading := False\<rparr>, b'))"

definition addScore ::
  "'b storage_service \<Rightarrow> string \<Rightarrow> int \<Rightarrow> string \<Rightarrow> string \<Rightarrow> string \<Rightarrow> rat \<Rightarrow> string option
     \<Rightarrow> game_store \<times> 'b \<Rightarrow> bool \<times> game_store \<times> 'b" where
  "addScore svc new_id now gameId playerId' playerName' value notes' sb =
     (let st = (fst sb)\<lparr>isLoading := True, error := None\<rparr>
      in case find (\<lambda>g. game_id g = gameId) (games st) of
           None \<Rightarrow> (False, st\<lparr>error := Some ''Game not found'', isLoading := False\<rparr>, snd sb)
         | Some game \<Rightarrow>
             (let newScore = \<lparr>score_id = new_id, playerId = playerId', playerName = playerName',
                              score_value = value, isTime = isTimeBased game,
                              achievedAt = DateMs now, score_notes = notes'\<rparr>;
                  updatedGame = game\<lparr>scores := scores game @ [newScore]\<rparr>;
                  (res, b') = svc_saveGame svc updatedGame (snd sb)
              in case res of
                   Rejected e \<Rightarrow>
                     (False, st\<lparr>error := Some (error_message e), isLoading := False\<rparr>, b')
                 | Resolved response \<Rightarrow>
                     if \<not> success response
                     then (False, st\<lparr>error := Some (or_default (resp_error response)
                                                       ''Failed to save score''),
                                     isLoading := False\<rparr>, b')
                     else (True,
                           st\<lparr>games := (case findIndex (\<lambda>g. game_id g = gameId) (games st) of
                                           None \<Rightarrow> games st
                                         | Some gameIndex \<Rightarrow> (games st)[gameIndex := updatedGame]),
                              isLoading := False\<rparr>, b')))"

definition deleteGame ::
  "'b storage_service \<Rightarrow> string \<Rightarrow> game_store \<times> 'b \<Rightarrow> bool \<times> game_store \<times> 'b" where
  "deleteGame svc gameId sb =
     (let st = (fst sb)\<lparr>isLoading := True, error := None\<rparr>;
          (res, b') = svc_deleteGame svc gameId (snd sb)
      in case res of
           Rejected e \<Rightarrow> (False, st\<lparr>error := Some (error_message e), isLoading := False\<rparr>, b')
         | Resolved response \<Rightarrow>
             if \<not> success response
             then (False, st\<lparr>error := Some (or_default (resp_error response)
                                               ''Failed to delete game''),
                             isLoading := False\<rparr>, b')
             else (True,
                   st\<lparr>games := filter (\<lambda>g. game_id g \<noteq> gameId) (games st),
                      currentGame := (case currentGame st of
                                        None \<Rightarrow> None
                                      | Some c \<Rightarrow> if game_id c = gameId then None else Some c),
                      isLoading := False\<rparr>, b'))"

text \<open>The loop of \<open>loadGames\<close> over the summaries: a game that fails to load is skipped.\<close>

fun load_each ::
  "'b storage_service \<Rightarrow> summary list \<Rightarrow> game list \<Rightarrow> 'b \<Rightarrow> (string option + game list) \<times> 'b" where
  "load_each svc [] loadedGames b = (Inr loadedGames, b)"
| "load_each svc (gameSummary # rest) loadedGames b =
     (case svc_loadGame svc (summary_id gameSummary) b of
        (Rejected e, b') \<Rightarrow> (Inl e, b')
      | (Resolved gameResponse, b') \<Rightarrow>
          (case data gameResponse of
             Some g \<Rightarrow> if success gameResponse then load_each svc rest (loadedGames @ [g]) b'
                       else load_each svc rest loadedGames b'
           | None \<Rightarrow> load_each svc rest loadedGames b'))"

definition loadGames :: "'b storage_service \<Rightarrow> game_store \<times> 'b \<Rightarrow> game_store \<times> 'b" where
  "loadGames svc sb =
     (let st = (fst sb)\<lparr>isLoading := True, error := None\<rparr>;
          (res, b1) = svc_listGames svc (snd sb)
      in case res of
           Rejected e \<Rightarrow> (st\<lparr>error := Some (error_message e), isLoading := False\<rparr>, b1)
         | Resolved response \<Rightarrow>
             if \<not> success response
             then (st\<lparr>error := Some (or_default (resp_error response) ''Failed to load games''),
                      isLoading := False\<rparr>, b1)
             else (case load_each svc (case data response of None \<Rightarrow> [] | Some l \<Rightarrow> l) [] b1 of
                     (Inl e, b2) \<Rightarrow>
                       (st\<lparr>error := Some (error_message e), isLoading := False\<rparr>, b2)
                   | (Inr loadedGames, b2) \<Rightarrow>
                       (st\<lparr>games := loadedGames, isLoading := False\<rparr>, b2)))"

definition setCurrentGame :: "string option \<Rightarrow> game_store \<Rightarrow> game_store" where
  "setCurrentGame gameId st =
     st\<lparr>currentGame := (case gameId of
                          None \<Rightarrow> None
                        | Some i \<Rightarrow> if i = [] then None else find (\<lambda>g. game_id g = i) (games st))\<rparr>"

definition addPlayer :: "string \<Rightarrow> int \<Rightarrow> string \<Rightarrow> game_store \<Rightarrow> string \<times> game_store" where
  "addPlayer new_id now name st =
     (new_id, st\<lparr>players := players st @
                   [\<lparr>player_id = new_id, player_name = name, player_createdAt = DateMs now\<rparr>]\<rparr>)"

text \<open>The constructor followed by \<open>initializeSampleData\<close>; the five ids are the \<open>uuidv4()\<close> calls in order.\<close>

definition initializeSampleData ::
  "string \<Rightarrow> string \<Rightarrow> string \<Rightarrow> string \<Rightarrow> string \<Rightarrow> int \<Rightarrow> game_store" where
  "initializeSampleData id1 id2 id3 id4 id5 now =
     (let player1 = \<lparr>player_id = id1, player_name = ''Alice'', player_createdAt = DateMs now\<rparr>;
          player2 = \<lparr>player_id = id2, player_name = ''Bob'', player_createdAt = DateMs now\<rparr>;
          sampleGame =
            \<lparr>game_id = id3, game_name = ''Racing Game'', description = Some ''Best lap times'',
             isTimeBased = True,
             scores =
               [\<lparr>score_id = id4, playerId = player_id player1, playerName = player_name player1,
                 score_value = 191 / 2, isTime = True, achievedAt = DateMs now,
                 score_notes = Some ''Perfect run!''\<rparr>,
                \<lparr>score_id = id5, playerId = player_id player2, playerName = player_name player2,
                 score_value = 491 / 5, isTime = True, achievedAt = DateMs now,
                 score_notes = Some ''Good attempt''\<rparr>],
             createdAt = Undefined, updatedAt = Undefined\<rparr>
      in \<lparr>games = [sampleGame], currentGame = None, players = [player1, player2],
          isLoading = False, error = None\<rparr>)"

text \<open>
  \<open>getScores\<close>, with the sort order given (the omitted argument stands for
  \<open>BEST_FIRST\<close>). Sorting by date calls \<open>getTime\<close> on \<open>achievedAt\<close>, which throws a
  \<open>TypeError\<close> on a value that is not a \<open>Date\<close>; the comparator runs as soon as there are two
  elements. A \<open>NaN\<close> comparator result counts as 0.
\<close>

definition time_cmp :: "score \<Rightarrow> score \<Rightarrow> rat" where
  "time_cmp a b = (case (getTime (achievedAt a), getTime (achievedAt b)) of
                     (Some x, Some y) \<Rightarrow> of_int (x - y)
                   | _ \<Rightarrow> 0)"

definition apply_filter :: "score_filter option \<Rightarrow> score list \<Rightarrow> score list" where
  "apply_filter flt scores0 =
     (case flt of
        None \<Rightarrow> scores0
      | Some f \<Rightarrow>
          (let s1 = (case filter_playerId f of
                       None \<Rightarrow> scores0
                     | Some p \<Rightarrow> if p = [] then scores0 else filter (\<lambda>s. playerId s = p) scores0);
               s2 = (if truthy_time (dateFrom f)
                     then filter (\<lambda>s. js_ge (achievedAt s) (dateFrom f)) s1 else s1);
               s3 = (if truthy_time (dateTo f)
                     then filter (\<lambda>s. js_le (achievedAt s) (dateTo f)) s2 else s2)
           in s3))"

definition apply_limit :: "score_filter option \<Rightarrow> score list \<Rightarrow> score list" where
  "apply_limit flt scores0 =
     (case flt of
        None \<Rightarrow> scores0
      | Some f \<Rightarrow> (case filter_limit f of
                     None \<Rightarrow> scores0
                   | Some l \<Rightarrow> if l = 0 then scores0 else slice0 l scores0))"

datatype js_error = TypeError

definition getScores ::
  "game_store \<Rightarrow> string \<Rightarrow> sort_order \<Rightarrow> score_filter option \<Rightarrow> js_error + score list" where
  "getScores st gameId sortOrder flt =
     (case find (\<lambda>g. game_id g = gameId) (games st) of
        None \<Rightarrow> Inr []
      | Some game \<Rightarrow>
          (let scores1 = apply_filter flt (scores game)
           in case sortOrder of
                BEST_FIRST \<Rightarrow>
                  Inr (apply_limit flt
                    (js_sort (\<lambda>a b. if isTimeBased game then score_value a - score_value b
                                     else score_value b - score_value a) scores1))
              | WORST_FIRST \<Rightarrow>
                  Inr (apply_limit flt
                    (js_sort (\<lambda>a b. if isTimeBased game then score_value b - score_value a
                                     else score_value a - score_value b) scores1))
              | NEWEST_FIRST \<Rightarrow>
                  if 2 \<le> length scores1 \<and> (\<exists>s \<in> set scores1. \<not> is_Date (achievedAt s))
                  then Inl TypeError
                  else Inr (apply_limit flt (js_sort (\<lambda>a b. time_cmp b a) scores1))
              | OLDEST_FIRST \<Rightarrow>
                  if 2 \<le> length scores1 \<and> (\<exists>s \<in> set scores1. \<not> is_Date (achievedAt s))
                  then Inl TypeError
                  else Inr (apply_limit flt (js_sort (\<lambda>a b. time_cmp a b) scores1))))"

text \<open>\<open>getBestScore\<close>: \<open>reduce\<close> without an initial value starts from the first element.\<close>

definition better :: "bool \<Rightarrow> score \<Rightarrow> score \<Rightarrow> score" where
  "better timeBased best current =
     (if timeBased then (if score_value current < score_value best then current else best)
      else (if score_value current > score_value best then current else best))"

definition getBestScore :: "game_store \<Rightarrow> string \<Rightarrow> string \<Rightarrow> score option" where
  "getBestScore st gameId playerId' =
     (case find (\<lambda>g. game_id g = gameId) (games st) of
        None \<Rightarrow> None
      | Some game \<Rightarrow>
          (case filter (\<lambda>s. playerId s = playerId') (scores game) of
             [] \<Rightarrow> None
           | first # rest \<Rightarrow> Some (foldl (better (isTimeBased game)) first rest)))"

text \<open>\<open>getLeaderboard\<close>; \<open>None\<close> for the limit is the omitted argument, which defaults to 10.\<close>

definition getLeaderboard :: "game_store \<Rightarrow> string \<Rightarrow> int option \<Rightarrow> leaderboard_entry list" where
  "getLeaderboard st gameId limit_arg =
     (let limit = (case limit_arg of None \<Rightarrow> 10 | Some l \<Rightarrow> l)
      in case find (\<lambda>g. game_id g = gameId) (games st) of
           None \<Rightarrow> []
         | Some game \<Rightarrow>
             (let leaderboard =
                    concat (map (\<lambda>p. case getBestScore st gameId (player_id p) of
                                        None \<Rightarrow> []
                                      | Some b \<Rightarrow> [\<lparr>player = p, bestScore = b\<rparr>])
                                (players st));
                  sorted_board =
                    js_sort (\<lambda>a b. if isTimeBased game
                                    then score_value (bestScore a) - score_value (bestScore b)
                                    else score_value (bestScore b) - score_value (bestScore a))
                            leaderboard
              in slice0 limit sorted_board))"

section \<open>StorageService: the localStorage backend\<close>

text \<open>
  All games live in one \<open>localStorage\<close> item, the JSON text of an object from game id to
  \<open>{game, version}\<close>. The item is modelled by what \<open>JSON.parse\<close> makes of it: no item,
  a text that is empty or does not parse, the text \<open>null\<close>, or the entries of an object in
  key order (ids are UUID strings, so key order is insertion order). The service itself only
  writes objects; a number, string, boolean or array as the item is not modelled.
  \<open>getItem\<close> and \<open>setItem\<close> can throw (storage disabled, quota exceeded); whether
  they do is part of the state of the storage.
\<close>

record game_file =
  file_game :: game
  version :: string

datatype stored = Unparsable | JsonNull | JsonObject "(string \<times> game_file) list"

record local_storage =
  ls_item :: "stored option"
  getItem_throws :: bool
  setItem_throws :: bool

text \<open>
  \<open>JSON.parse(JSON.stringify(v))\<close> on a time-valued field: a valid \<open>Date\<close> becomes its ISO
  string, an invalid one \<open>null\<close>, and a missing field stays missing. Strings, booleans and
  finite numbers come back as they were.
\<close>

fun json_time :: "js_time \<Rightarrow> js_time" where
  "json_time Undefined = Undefined"
| "json_time Null = Null"
| "json_time InvalidDate = Null"
| "json_time (DateMs t) = IsoString t"
| "json_time (IsoString t) = IsoString t"

definition json_score :: "score \<Rightarrow> score" where
  "json_score s = s\<lparr>achievedAt := json_time (achievedAt s)\<rparr>"

definition json_game :: "game \<Rightarrow> game" where
  "json_game g = g\<lparr>scores := map json_score (scores g),
                    createdAt := json_time (createdAt g),
                    updatedAt := json_time (updatedAt g)\<rparr>"

definition json_file :: "game_file \<Rightarrow> game_file" where
  "json_file f = f\<lparr>file_game := json_game (file_game f)\<rparr>"

text \<open>
  The games object is a plain object used as a dictionary, so the property names of
  \<open>Object.prototype\<close> are never simply absent. Reading one that the object does not own
  gives the inherited value (a function, or the prototype itself for \<open>__proto__\<close>), which is
  truthy and has no \<open>game\<close>. Assigning to \<open>__proto__\<close>, unless the object owns a property
  of that name (as \<open>JSON.parse\<close> can create), calls the inherited setter: it changes the
  prototype and adds no property. Any other name is added or overwritten in place.
\<close>

definition object_prototype_keys :: "string list" where
  "object_prototype_keys =
     [''__proto__'', ''constructor'', ''hasOwnProperty'', ''isPrototypeOf'',
      ''propertyIsEnumerable'', ''toLocaleString'', ''toString'', ''valueOf'',
      ''__defineGetter__'', ''__defineSetter__'', ''__lookupGetter__'', ''__lookupSetter__'']"

definition set_property :: "string \<Rightarrow> 'v \<Rightarrow> (string \<times> 'v) list \<Rightarrow> (string \<times> 'v) list" where
  "set_property k v d =
     (if k = ''__proto__'' \<and> map_of d k = None then d else AList.update k v d)"

datatype 'v js_lookup = Own 'v | Inherited | Missing

definition get_property :: "(string \<times> 'v) list \<Rightarrow> string \<Rightarrow> 'v js_lookup" where
  "get_property d k =
     (case map_of d k of
        Some v \<Rightarrow> Own v
      | None \<Rightarrow> if k \<in> set object_prototype_keys then Inherited else Missing)"

text \<open>
  The message of a \<open>TypeError\<close> the engine raises (property access on \<open>null\<close> or
  \<open>undefined\<close>); its wording is the engine's, and one text stands for all of them.
\<close>

definition type_error_text :: string where
  "type_error_text = ''TypeError''"

text \<open>What \<open>getGamesFromStorage\<close> returns: \<open>null\<close> or an object.\<close>

datatype js_games = GNull | GObject "(string \<times> game_file) list"

definition getGamesFromStorage :: "local_storage \<Rightarrow> js_games" where
  "getGamesFromStorage ls =
     (if getItem_throws ls then GObject []
      else case ls_item ls of
             None \<Rightarrow> GObject []
           | Some Unparsable \<Rightarrow> GObject []
           | Some JsonNull \<Rightarrow> GNull
           | Some (JsonObject d) \<Rightarrow> GObject d)"

text \<open>\<open>saveGamesToStorage\<close> catches and logs what \<open>setItem\<close> throws: the write is then lost.\<close>

definition saveGamesToStorage :: "(string \<times> game_file) list \<Rightarrow> local_storage \<Rightarrow> local_storage" where
  "saveGamesToStorage gs ls =
     (if setItem_throws ls then ls
      else ls\<lparr>ls_item := Some (JsonObject (map (\<lambda>(k, f). (k, json_file f)) gs))\<rparr>)"

definition deserializeGame :: "game \<Rightarrow> game" where
  "deserializeGame gameData =
     gameData\<lparr>createdAt := new_Date (createdAt gameData),
              updatedAt := new_Date (updatedAt gameData),
              scores := map (\<lambda>s. s\<lparr>achievedAt := new_Date (achievedAt s)\<rparr>) (scores gameData)\<rparr>"

definition saveGame :: "game \<Rightarrow> local_storage \<Rightarrow> bool outcome \<times> local_storage" where
  "saveGame g ls =
     (case getGamesFromStorage ls of
        GNull \<Rightarrow> (Resolved (ApiResponse False None (Some type_error_text)), ls)
      | GObject gs \<Rightarrow>
          (let gameFile = \<lparr>file_game = g, version = ''1.0''\<rparr>
           in (Resolved (ApiResponse True (Some True) None),
               saveGamesToStorage (set_property (game_id g) gameFile gs) ls)))"

definition loadGame :: "string \<Rightarrow> local_storage \<Rightarrow> game outcome \<times> local_storage" where
  "loadGame gameId ls =
     (case getGamesFromStorage ls of
        GNull \<Rightarrow> (Resolved (ApiResponse False None (Some type_error_text)), ls)
      | GObject gs \<Rightarrow>
          (case get_property gs gameId of
             Missing \<Rightarrow> (Resolved (ApiResponse False None (Some ''Game not found'')), ls)
           | Inherited \<Rightarrow> (Resolved (ApiResponse False None (Some type_error_text)), ls)
           | Own gameFile \<Rightarrow>
               (Resolved (ApiResponse True (Some (deserializeGame (file_game gameFile))) None),
                ls)))"

text \<open>
  \<open>listGames\<close> sorts the summaries by \<open>updatedAt\<close>, most recent first; the difference of two
  times is \<open>NaN\<close> when one of the dates is invalid, which \<open>sort\<close> takes for 0.
\<close>

definition updated_cmp :: "summary \<Rightarrow> summary \<Rightarrow> rat" where
  "updated_cmp a b =
     (case (getTime (summary_updatedAt b), getTime (summary_updatedAt a)) of
        (Some x, Some y) \<Rightarrow> of_int (x - y)
      | _ \<Rightarrow> 0)"

definition listGames :: "local_storage \<Rightarrow> summary list outcome \<times> local_storage" where
  "listGames ls =
     (case getGamesFromStorage ls of
        GNull \<Rightarrow> (Resolved (ApiResponse False None (Some type_error_text)), ls)
      | GObject gs \<Rightarrow>
          (let gameList =
                 map (\<lambda>(gameId, gameFile).
                        \<lparr>summary_id = gameId, summary_name = game_name (file_game gameFile),
                         summary_updatedAt = new_Date (updatedAt (file_game gameFile))\<rparr>) gs
           in (Resolved (ApiResponse True (Some (js_sort updated_cmp gameList)) None), ls)))"

text \<open>
  \<open>deleteGame\<close> of the service. For an inherited name the test \<open>!games[gameId]\<close> does not
  stop it: \<open>delete\<close> removes nothing, the object is written back and success is reported.
\<close>

definition storage_deleteGame :: "string \<Rightarrow> local_storage \<Rightarrow> bool outcome \<times> local_storage" where
  "storage_deleteGame gameId ls =
     (case getGamesFromStorage ls of
        GNull \<Rightarrow> (Resolved (ApiResponse False None (Some type_error_text)), ls)
      | GObject gs \<Rightarrow>
          (case get_property gs gameId of
             Missing \<Rightarrow> (Resolved (ApiResponse False None (Some ''Game not found'')), ls)
           | Inherited \<Rightarrow> (Resolved (ApiResponse True (Some True) None), saveGamesToStorage gs ls)
           | Own gameFile \<Rightarrow>
               (Resolved (ApiResponse True (Some True) None),
                saveGamesToStorage (AList.delete gameId gs) ls)))"

definition StorageService :: "local_storage storage_service" where
  "StorageService = \<lparr>svc_saveGame = saveGame, svc_loadGame = loadGame,
                     svc_listGames = listGames, svc_deleteGame = storage_deleteGame\<rparr>"

text \<open>
  A valid Game, as the data model has it: its timestamps and the \<open>achievedAt\<close> of every score
  are valid dates.
\<close>

definition valid_time :: "js_time \<Rightarrow> bool" where
  "valid_time t = (case t of DateMs _ \<Rightarrow> True | _ \<Rightarrow> False)"

definition valid_game :: "game \<Rightarrow> bool" where
  "valid_game g = (valid_time (createdAt g) \<and> valid_time (updatedAt g) \<and>
                   list_all (\<lambda>s. valid_time (achievedAt s)) (scores g))"

section \<open>The forms\<close>

text \<open>
  Strings are ASCII here: \<open>trim\<close> strips the ASCII white space, \<open>toLowerCase\<close> folds
  \<open>A\<close> to \<open>Z\<close>, and \<open>length\<close> counts characters.
\<close>

definition is_space :: "char \<Rightarrow> bool" where
  "is_space c = (c \<in> set [CHR '' '', CHR 0x09, CHR 0x0A, CHR 0x0B, CHR 0x0C, CHR 0x0D])"

definition trim :: "string \<Rightarrow> string" where
  "trim s = rev (dropWhile is_space (rev (dropWhile is_space s)))"

definition lower_char :: "char \<Rightarrow> char" where
  "lower_char c =
     (case map_of (zip ''ABCDEFGHIJKLMNOPQRSTUVWXYZ'' ''abcdefghijklmnopqrstuvwxyz'') c of
        None \<Rightarrow> c | Some l \<Rightarrow> l)"

definition toLowerCase :: "string \<Rightarrow> string" where
  "toLowerCase s = map lower_char s"

record game_form =
  form_name :: string
  form_description :: string
  form_isTimeBased :: bool

text \<open>\<open>AddGameForm.validateForm\<close>: the errors object, with \<open>Object.keys(e).length > 0\<close> read as \<open>e \<noteq> []\<close>.\<close>

definition AddGameForm_validateForm :: "game_store \<Rightarrow> game_form \<Rightarrow> (string \<times> string) list" where
  "AddGameForm_validateForm store formData =
     (let n = trim (form_name formData);
          e1 = (if n = [] then AList.update ''name'' ''Game name is required'' []
                else if length n < 2
                then AList.update ''name'' ''Game name must be at least 2 characters long'' []
                else if length n > 50
                then AList.update ''name'' ''Game name must be less than 50 characters'' []
                else []);
          e2 = (case find (\<lambda>game. toLowerCase (game_name game) = toLowerCase n) (games store) of
                  Some existingGame \<Rightarrow>
                    AList.update ''name'' ''A game with this name already exists'' e1
                | None \<Rightarrow> e1);
          e3 = (if length (trim (form_description formData)) > 200
                then AList.update ''description'' ''Description must be less than 200 characters'' e2
                else e2)
      in e3)"

text \<open>\<open>AddGameForm.handleSubmit\<close>: the errors shown, the id \<open>createGame\<close> returned, the store and backend.\<close>

definition AddGameForm_handleSubmit ::
  "'b storage_service \<Rightarrow> string \<Rightarrow> game_form \<Rightarrow> game_store \<times> 'b
     \<Rightarrow> (string \<times> string) list \<times> string option \<times> game_store \<times> 'b" where
  "AddGameForm_handleSubmit svc new_id formData sb =
     (let validationErrors = AddGameForm_validateForm (fst sb) formData
      in if validationErrors \<noteq> [] then (validationErrors, None, sb)
         else ([], createGame svc new_id (trim (form_name formData))
                     (Some (trim (form_description formData))) (form_isTimeBased formData) sb))"

text \<open>
  What \<open>parseFloat\<close> returns, with \<open>isNaN\<close> and the comparisons of such a number with a
  finite constant; the function itself is a parameter of the score form.
\<close>

datatype js_number = NaN | Finite rat | PosInfinity | NegInfinity

fun isNaN :: "js_number \<Rightarrow> bool" where
  "isNaN NaN = True"
| "isNaN _ = False"

fun js_lt :: "js_number \<Rightarrow> rat \<Rightarrow> bool" where
  "js_lt (Finite x) c = (x < c)"
| "js_lt NegInfinity c = True"
| "js_lt _ c = False"

fun js_gt :: "js_number \<Rightarrow> rat \<Rightarrow> bool" where
  "js_gt (Finite x) c = (x > c)"
| "js_gt PosInfinity c = True"
| "js_gt _ c = False"

record score_form =
  form_gameId :: string
  form_playerId :: string
  form_playerName :: string
  isNewPlayer :: bool
  scoreValue :: string
  form_notes :: string

definition AddScoreForm_validateForm ::
  "(string \<Rightarrow> js_number) \<Rightarrow> score_form \<Rightarrow> (string \<times> string) list" where
  "AddScoreForm_validateForm parseFloat formData =
     (let e1 = (if form_gameId formData = [] then AList.update ''gameId'' ''Please select a game'' []
                else []);
          pn = trim (form_playerName formData);
          e2 = (if isNewPlayer formData
                then (if pn = [] then AList.update ''playerName'' ''Player name is required'' e1
                      else if length pn < 2
                      then AList.update ''playerName''
                             ''Player name must be at least 2 characters long'' e1
                      else if length pn > 30
                      then AList.update ''playerName''
                             ''Player name must be less than 30 characters'' e1
                      else e1)
                else (if form_playerId formData = []
                      then AList.update ''playerId''
                             ''Please select a player or create a new one'' e1
                      else e1));
          e3 = (if trim (scoreValue formData) = []
                then AList.update ''scoreValue'' ''Score value is required'' e2
                else (let scoreNum = parseFloat (scoreValue formData)
                      in if isNaN scoreNum
                         then AList.update ''scoreValue'' ''Score must be a valid number'' e2
                         else if js_lt scoreNum 0
                         then AList.update ''scoreValue'' ''Score cannot be negative'' e2
                         else if js_gt scoreNum 999999999
                         then AList.update ''scoreValue'' ''Score is too large'' e2
                         else e2));
          e4 = (if length (trim (form_notes formData)) > 100
                then AList.update ''notes'' ''Notes must be less than 100 characters'' e3
                else e3)
      in e4)"

text \<open>
  \<open>AddScoreForm.handleSubmit\<close>; the two ids and times are those of \<open>addPlayer\<close> and of
  \<open>addScore\<close>. After a passed validation the parsed score is finite; the
  other results of \<open>parseFloat\<close> do not reach the call of \<open>addScore\<close>
  (lemma \<open>validateForm_passed_finite\<close>), and the model leaves the store as it is there.
\<close>

definition AddScoreForm_handleSubmit ::
  "'b storage_service \<Rightarrow> (string \<Rightarrow> js_number) \<Rightarrow> string \<Rightarrow> int \<Rightarrow> string \<Rightarrow> int \<Rightarrow> score_form
     \<Rightarrow> game_store \<times> 'b \<Rightarrow> (string \<times> string) list \<times> bool \<times> game_store \<times> 'b" where
  "AddScoreForm_handleSubmit svc parseFloat player_uuid player_now score_uuid now formData sb =
     (let validationErrors = AddScoreForm_validateForm parseFloat formData
      in if validationErrors \<noteq> [] then (validationErrors, False, sb)
         else (let (playerId', playerName', st1) =
                     (if isNewPlayer formData
                      then (let (pid, st') = addPlayer player_uuid player_now
                                               (trim (form_playerName formData)) (fst sb)
                            in (pid, trim (form_playerName formData), st'))
                      else (form_playerId formData, form_playerName formData, fst sb))
               in case parseFloat (scoreValue formData) of
                    Finite v \<Rightarrow>
                      ([], addScore svc score_uuid now (form_gameId formData) playerId' playerName' v
                             (if trim (form_notes formData) = [] then None
                              else Some (trim (form_notes formData)))
                             (st1, snd sb))
                  | _ \<Rightarrow> ([], False, st1, snd sb)))"

section \<open>The running application\<close>

text \<open>
  The states of the store over the localStorage backend: a first page load finds no item;
  every later page load builds the store anew over the storage as it was left; in between,
  the store's methods run with any arguments, and the storage may start or stop throwing.
\<close>

inductive reachable :: "game_store \<times> local_storage \<Rightarrow> bool" where
  first_load:
    "ls_item ls = None \<Longrightarrow> reachable (initializeSampleData id1 id2 id3 id4 id5 now, ls)"
| page_load: "reachable (st, ls) \<Longrightarrow> reachable (initializeSampleData id1 id2 id3 id4 id5 now, ls)"
| storage_mood:
    "reachable (st, ls) \<Longrightarrow> reachable (st, ls\<lparr>getItem_throws := r, setItem_throws := w\<rparr>)"
| do_loadGames: "reachable sb \<Longrightarrow> reachable (loadGames StorageService sb)"
| do_createGame:
    "reachable sb \<Longrightarrow> reachable (snd (createGame StorageService new_id name descr tb sb))"
| do_addScore:
    "reachable sb \<Longrightarrow>
     reachable (snd (addScore StorageService new_id now gameId pid pname v nts sb))"
| do_deleteGame: "reachable sb \<Longrightarrow> reachable (snd (deleteGame StorageService gameId sb))"
| do_addPlayer: "reachable (st, ls) \<Longrightarrow> reachable (snd (addPlayer new_id now name st), ls)"
| do_setCurrentGame: "reachable (st, ls) \<Longrightarrow> reachable (setCurrentGame gameId st, ls)"

definition scores_match :: "game \<Rightarrow> bool" where
  "scores_match g = list_all (\<lambda>s. isTime s = isTimeBased g) (scores g)"

section \<open>Notions used to state the properties\<close>

text \<open>
  Ranking: \<open>beats\<close> is "strictly better than" and \<open>no_worse\<close> "at least as good as", lower
  values winning in a time-based game and higher ones otherwise.
\<close>

definition beats :: "bool \<Rightarrow> score \<Rightarrow> score \<Rightarrow> bool" where
  "beats timeBased a b =
     (if timeBased then score_value a < score_value b else score_value a > score_value b)"

definition no_worse :: "bool \<Rightarrow> score \<Rightarrow> score \<Rightarrow> bool" where
  "no_worse timeBased a b =
     (if timeBased then score_value a \<le> score_value b else score_value a \<ge> score_value b)"

definition has_score :: "game \<Rightarrow> player \<Rightarrow> bool" where
  "has_score g p = (\<exists>s \<in> set (scores g). playerId s = player_id p)"

definition ranked :: "bool \<Rightarrow> leaderboard_entry list \<Rightarrow> bool" where
  "ranked timeBased lb =
     (if timeBased then sorted (map (\<lambda>e. score_value (bestScore e)) lb)
      else sorted (rev (map (\<lambda>e. score_value (bestScore e)) lb)))"

text \<open>The entries \<open>getLeaderboard\<close> collects before it sorts them.\<close>

definition board_entries :: "game_store \<Rightarrow> string \<Rightarrow> player list \<Rightarrow> leaderboard_entry list" where
  "board_entries st gameId ps =
     concat (map (\<lambda>p. case getBestScore st gameId (player_id p) of
                         None \<Rightarrow> []
                       | Some b \<Rightarrow> [\<lparr>player = p, bestScore = b\<rparr>]) ps)"

text \<open>
  Whether a storage call counts as a success for the store (it resolved with
  \<open>success: true\<close>), and the message the store shows when it does not.
\<close>

definition saved :: "'a outcome \<Rightarrow> bool" where
  "saved res = (case res of Resolved r \<Rightarrow> success r | Rejected e \<Rightarrow> False)"

definition failure_text :: "'a outcome \<Rightarrow> string \<Rightarrow> string" where
  "failure_text res d =
     (case res of Resolved r \<Rightarrow> or_default (resp_error r) d | Rejected e \<Rightarrow> error_message e)"

text \<open>The invariant of the running application, on the store and on the stored documents.\<close>

definition store_ok :: "game_store \<Rightarrow> bool" where
  "store_ok st = (list_all scores_match (games st) \<and>
                  (case currentGame st of None \<Rightarrow> True | Some c \<Rightarrow> scores_match c))"

definition storage_ok :: "local_storage \<Rightarrow> bool" where
  "storage_ok ls =
     (case ls_item ls of
        Some (JsonObject d) \<Rightarrow> list_all (\<lambda>(k, f). scores_match (file_game f)) d
      | _ \<Rightarrow> True)"

definition system_ok :: "game_store \<times> local_storage \<Rightarrow> bool" where
  "system_ok sb = (store_ok (fst sb) \<and> storage_ok (snd sb))"

section \<open>Sample stores\<close>

text \<open>The store as the constructor leaves it, with fixed ids, for the concrete instances below.\<close>

definition sample_store :: game_store where
  "sample_store = initializeSampleData ''alice'' ''bob'' ''racing'' ''s1'' ''s2'' 1000"

text \<open>A working storage with no item yet, and one whose writes fail.\<close>

definition fresh_storage :: local_storage where
  "fresh_storage = \<lparr>ls_item = None, getItem_throws = False, setItem_throws = False\<rparr>"

definition full_storage :: local_storage where
  "full_storage = \<lparr>ls_item = None, getItem_throws = False, setItem_throws = True\<rparr>"

text \<open>The sample game as a storage backend returns it, with both timestamps set.\<close>

definition dated_game :: game where
  "dated_game = (hd (games sample_store))\<lparr>createdAt := DateMs 1000, updatedAt := DateMs 1000\<rparr>"

definition dated_store :: game_store where
  "dated_store = sample_store\<lparr>games := [dated_game]\<rparr>"

text \<open>A score-based game in which Alice has two scores of the same value.\<close>

definition tie1 :: score where
  "tie1 = \<lparr>score_id = ''t1'', playerId = ''alice'', playerName = ''Alice'', score_value = 9,
           isTime = False, achievedAt = DateMs 1000, score_notes = None\<rparr>"

definition tie2 :: score where
  "tie2 = \<lparr>score_id = ''t2'', playerId = ''alice'', playerName = ''Alice'', score_value = 9,
           isTime = False, achievedAt = DateMs 2000, score_notes = None\<rparr>"

definition tie3 :: score where
  "tie3 = \<lparr>score_id = ''t3'', playerId = ''alice'', playerName = ''Alice'', score_value = 5,
           isTime = False, achievedAt = DateMs 3000, score_notes = None\<rparr>"

definition tie_game :: game where
  "tie_game = \<lparr>game_id = ''arcade'', game_name = ''Arcade'', description = None,
               isTimeBased = False, scores = [tie1, tie2, tie3],
               createdAt = Undefined, updatedAt = Undefined\<rparr>"

definition tie_store :: game_store where
  "tie_store = sample_store\<lparr>games := [tie_game]\<rparr>"

text \<open>
  A time-based game in which neither player's best time is the first one entered: Alice has
  100 and then 95, Bob 99 and then 98. Carol is known and has no score.
\<close>

definition lap1 :: score where
  "lap1 = \<lparr>score_id = ''l1'', playerId = ''alice'', playerName = ''Alice'', score_value = 100,
           isTime = True, achievedAt = DateMs 1000, score_notes = None\<rparr>"

definition lap2 :: score where
  "lap2 = \<lparr>score_id = ''l2'', playerId = ''bob'', playerName = ''Bob'', score_value = 99,
           isTime = True, achievedAt = DateMs 2000, score_notes = None\<rparr>"

definition lap3 :: score where
  "lap3 = \<lparr>score_id = ''l3'', playerId = ''alice'', playerName = ''Alice'', score_value = 95,
           isTime = True, achievedAt = DateMs 3000, score_notes = None\<rparr>"

definition lap4 :: score where
  "lap4 = \<lparr>score_id = ''l4'', playerId = ''bob'', playerName = ''Bob'', score_value = 98,
           isTime = True, achievedAt = DateMs 4000, score_notes = None\<rparr>"

definition lap_game :: game where
  "lap_game = \<lparr>game_id = ''sprint'', game_name = ''Sprint'', description = None,
               isTimeBased = True, scores = [lap1, lap2, lap3, lap4],
               createdAt = Undefined, updatedAt = Undefined\<rparr>"

definition carol :: player where
  "carol = \<lparr>player_id = ''carol'', player_name = ''Carol'', player_createdAt = DateMs 1000\<rparr>"

definition lap_store :: game_store where
  "lap_store = sample_store\<lparr>games := [lap_game], players := carol # players sample_store\<rparr>"

text \<open>A session: create a score-based game, add a score to it, reload the games from storage.\<close>

definition demo_state :: "game_store \<times> local_storage" where
  "demo_state =
     loadGames StorageService
       (snd (addScore StorageService ''s3'' 3000 ''chess'' ''alice'' ''Alice'' 1200 None
          (snd (createGame StorageService ''chess'' ''Chess'' None False
                  (sample_store, fresh_storage)))))"

text \<open>The sample game with two different valid timestamps, and the same under the id \<open>__proto__\<close>.\<close>

definition valid_sample :: game where
  "valid_sample = dated_game\<lparr>updatedAt := DateMs 2000\<rparr>"

definition proto_sample :: game where
  "proto_sample = valid_sample\<lparr>game_id := ''__proto__''\<rparr>"

text \<open>A stand-in for \<open>parseFloat\<close> on the two inputs used below, and a form with a negative score.\<close>

definition sample_parseFloat :: "string \<Rightarrow> js_number" where
  "sample_parseFloat s = (if s = ''-5'' then Finite (-5) else if s = ''90'' then Finite 90 else NaN)"

definition negative_form :: score_form where
  "negative_form = \<lparr>form_gameId = ''racing'', form_playerId = ''alice'', form_playerName = ''Alice'',
                    isNewPlayer = False, scoreValue = ''-5'', form_notes = []\<rparr>"

section \<open>Sorting\<close>

text \<open>
  The comparators the store passes to \<open>sort\<close> are differences of a key, so the sort is the
  library's stable \<open>sort_key\<close>, by the key or by its negation.
\<close>

lemma insert_cmp_asc: "insert_cmp (\<lambda>a b. f a - f b) x ys = insort_key f x ys"
  by (induction ys) auto

lemma insert_cmp_desc: "insert_cmp (\<lambda>a b. f b - f a) x ys = insort_key (\<lambda>a. - f a) x ys"
  by (induction ys) auto

lemma js_sort_asc: "js_sort (\<lambda>a b. f a - f b) xs = sort_key f xs"
  by (induction xs) (simp_all add: js_sort_def insert_cmp_asc)

lemma js_sort_desc: "js_sort (\<lambda>a b. f b - f a) xs = sort_key (\<lambda>a. - f a) xs"
  by (induction xs) (simp_all add: js_sort_def insert_cmp_desc)

lemma sorted_rev_desc:
  fixes f :: "'a \<Rightarrow> rat"
  shows "sorted (map f (rev (sort_key (\<lambda>a. - f a) xs)))"
proof -
  have "sorted (map (\<lambda>a. - f a) (sort_key (\<lambda>a. - f a) xs))" by (rule sorted_sort_key)
  then have "sorted_wrt (\<lambda>x y. f y \<le> f x) (sort_key (\<lambda>a. - f a) xs)"
    by (simp add: sorted_map)
  then show ?thesis by (simp add: sorted_map sorted_wrt_rev)
qed

lemma values_asc_desc:
  fixes f :: "'a \<Rightarrow> rat"
  shows "map f (sort_key f xs) = rev (map f (sort_key (\<lambda>a. - f a) xs))"
proof -
  have "sort (map f xs) = map f (sort_key f xs)"
    by (rule properties_for_sort) (simp_all add: sorted_sort_key)
  moreover have "sort (map f xs) = rev (map f (sort_key (\<lambda>a. - f a) xs))"
    using sorted_rev_desc[of f xs] by (intro properties_for_sort) (simp_all add: rev_map)
  ultimately show ?thesis by simp
qed

lemma filter_key_distinct:
  "distinct (map f xs) \<Longrightarrow> k \<in> set xs \<Longrightarrow> filter (\<lambda>x. f k = f x) xs = [k]"
proof (induction xs)
  case Nil
  then show ?case by simp
next
  case (Cons a xs)
  show ?case
  proof (cases "k = a")
    case True
    have "filter (\<lambda>x. f a = f x) xs = []"
      using Cons.prems(1) by (auto simp: filter_empty_conv)
    with True show ?thesis by simp
  next
    case False
    with Cons.prems have kx: "k \<in> set xs" by simp
    then have "f k \<in> f ` set xs" by simp
    with Cons.prems(1) have "f k \<noteq> f a" by auto
    with Cons kx show ?thesis by simp
  qed
qed

lemma sort_asc_rev_desc:
  fixes f :: "'a \<Rightarrow> rat"
  assumes "distinct (map f xs)"
  shows "sort_key f xs = rev (sort_key (\<lambda>a. - f a) xs)"
proof (rule properties_for_sort_key)
  let ?ys = "rev (sort_key (\<lambda>a. - f a) xs)"
  show m: "mset ?ys = mset xs" by simp
  show "sorted (map f ?ys)" by (rule sorted_rev_desc)
  fix k assume k: "k \<in> set ?ys"
  have "mset (map f ?ys) = mset (map f xs)" using m by (metis mset_map)
  then have d: "distinct (map f ?ys)" using assms by (metis mset_eq_imp_distinct_iff)
  from k have kx: "k \<in> set xs" by simp
  show "filter (\<lambda>x. f k = f x) ?ys = filter (\<lambda>x. f k = f x) xs"
    using filter_key_distinct[OF d k] filter_key_distinct[OF assms kx] by simp
qed

lemma distinct_sort_key: "distinct (map f (sort_key g xs)) = distinct (map f xs)"
proof -
  have "mset (map f (sort_key g xs)) = mset (map f xs)" by simp
  then show ?thesis by (rule mset_eq_imp_distinct_iff)
qed


section \<open>getBestScore\<close>

lemma better_cases:
  "better tb best cur = (if beats tb cur best then cur else best)"
  by (simp add: better_def beats_def)

lemma beats_no_worse_trans: "beats tb c r \<Longrightarrow> no_worse tb r y \<Longrightarrow> beats tb c y"
  by (auto simp: beats_def no_worse_def split: if_splits)

lemma beats_trans: "beats tb c r \<Longrightarrow> beats tb r y \<Longrightarrow> beats tb c y"
  by (auto simp: beats_def split: if_splits)

lemma not_beats_no_worse: "\<not> beats tb c r \<Longrightarrow> no_worse tb r c"
  by (auto simp: beats_def no_worse_def split: if_splits)

lemma reduce_first_best:
  "\<exists>ys zs. x # xs = ys @ foldl (better tb) x xs # zs \<and>
     (\<forall>y \<in> set ys. beats tb (foldl (better tb) x xs) y) \<and>
     (\<forall>z \<in> set zs. no_worse tb (foldl (better tb) x xs) z)"
proof (induction xs rule: rev_induct)
  case Nil
  show ?case by (rule exI[of _ "[]"], rule exI[of _ "[]"]) simp
next
  case (snoc c xs)
  let ?r = "foldl (better tb) x xs"
  from snoc obtain ys zs where d: "x # xs = ys @ ?r # zs"
    and before: "\<forall>y \<in> set ys. beats tb ?r y"
    and after: "\<forall>z \<in> set zs. no_worse tb ?r z" by blast
  show ?case
  proof (cases "beats tb c ?r")
    case True
    then have r: "foldl (better tb) x (xs @ [c]) = c" by (simp add: better_cases)
    have "x # xs @ [c] = (ys @ ?r # zs) @ c # []" using d by simp
    moreover have "\<forall>y \<in> set (ys @ ?r # zs). beats tb c y"
      using True before after by (auto intro: beats_trans beats_no_worse_trans)
    ultimately show ?thesis unfolding r by (metis empty_iff list.set(1))
  next
    case False
    then have r: "foldl (better tb) x (xs @ [c]) = ?r" by (simp add: better_cases)
    have "x # xs @ [c] = ys @ ?r # (zs @ [c])" using d by simp
    moreover have "\<forall>z \<in> set (zs @ [c]). no_worse tb ?r z"
      using False after by (auto intro: not_beats_no_worse)
    ultimately show ?thesis unfolding r using before by blast
  qed
qed

lemma filter_decomp:
  "filter P l = ys' @ r # zs' \<Longrightarrow>
   \<exists>ys zs. l = ys @ r # zs \<and> filter P ys = ys' \<and> filter P zs = zs' \<and> P r"
proof (induction ys' arbitrary: l)
  case Nil
  then obtain us vs where "l = us @ r # vs" "\<forall>u \<in> set us. \<not> P u" "P r" "zs' = filter P vs"
    by (auto simp: filter_eq_Cons_iff)
  then show ?case by (intro exI[of _ us] exI[of _ vs]) simp
next
  case (Cons a ys')
  then obtain us vs where l: "l = us @ a # vs" and us: "\<forall>u \<in> set us. \<not> P u" and pa: "P a"
    and vs: "filter P vs = ys' @ r # zs'"
    by (auto simp: filter_eq_Cons_iff)
  from Cons.IH[OF vs] obtain ys zs where
    "vs = ys @ r # zs" "filter P ys = ys'" "filter P zs = zs'" "P r" by blast
  then show ?case using l us pa by (intro exI[of _ "us @ a # ys"] exI[of _ zs]) simp
qed

lemma getBestScore_decomp:
  assumes g: "find (\<lambda>g. game_id g = gameId) (games st) = Some g"
    and some: "\<exists>s \<in> set (scores g). playerId s = pid"
  shows "\<exists>ys r zs. scores g = ys @ r # zs \<and> getBestScore st gameId pid = Some r \<and>
           playerId r = pid \<and>
           (\<forall>y \<in> set ys. playerId y = pid \<longrightarrow> beats (isTimeBased g) r y) \<and>
           (\<forall>z \<in> set zs. playerId z = pid \<longrightarrow> no_worse (isTimeBased g) r z)"
proof -
  let ?P = "\<lambda>s. playerId s = pid"
  from some have "filter ?P (scores g) \<noteq> []" by (auto simp: filter_empty_conv)
  then obtain x xs where f: "filter ?P (scores g) = x # xs" by (cases "filter ?P (scores g)") auto
  let ?r = "foldl (better (isTimeBased g)) x xs"
  have res: "getBestScore st gameId pid = Some ?r" using g f by (simp add: getBestScore_def)
  from reduce_first_best[of x xs "isTimeBased g"] obtain ys' zs' where
    d: "x # xs = ys' @ ?r # zs'" and before: "\<forall>y \<in> set ys'. beats (isTimeBased g) ?r y"
    and after: "\<forall>z \<in> set zs'. no_worse (isTimeBased g) ?r z" by blast
  from filter_decomp[of ?P "scores g" ys' ?r zs'] f d obtain ys zs where
    l: "scores g = ys @ ?r # zs" and fy: "filter ?P ys = ys'" and fz: "filter ?P zs = zs'" and pr: "?P ?r"
    by auto
  have "\<forall>y \<in> set ys. playerId y = pid \<longrightarrow> beats (isTimeBased g) ?r y"
    using before fy by auto
  moreover have "\<forall>z \<in> set zs. playerId z = pid \<longrightarrow> no_worse (isTimeBased g) ?r z"
    using after fz by auto
  ultimately show ?thesis using l res pr by blast
qed


text \<open>
  Claim C2. For a game of the store and a player with at least one score in it,
  \<open>getBestScore\<close> returns a score \<open>r\<close> of that player from the game's list such that every
  score of the player later in the list is no better than \<open>r\<close>, and every score of the
  player earlier in the list is strictly worse: \<open>r\<close> has the minimal value in a time-based
  game and the maximal one otherwise, and of several scores with that value it is the
  one added first.
\<close>

theorem getBestScore_first_best:
  assumes g: "find (\<lambda>g. game_id g = gameId) (games st) = Some g"
    and some: "\<exists>s \<in> set (scores g). playerId s = pid"
  shows "\<exists>ys r zs. scores g = ys @ r # zs \<and> getBestScore st gameId pid = Some r \<and>
           playerId r = pid \<and>
           (\<forall>y \<in> set ys. playerId y = pid \<longrightarrow> beats (isTimeBased g) r y) \<and>
           (\<forall>z \<in> set zs. playerId z = pid \<longrightarrow> no_worse (isTimeBased g) r z)"
  using g some by (rule getBestScore_decomp)

section \<open>getScores: best first and worst first\<close>

lemma stable_asc:
  "filter (\<lambda>s. f s = k) (sort_key f xs) = filter (\<lambda>s. f s = k) xs"
  by (rule sort_key_stable)

lemma stable_desc:
  fixes f :: "'a \<Rightarrow> rat"
  shows "filter (\<lambda>s. f s = k) (sort_key (\<lambda>a. - f a) xs) = filter (\<lambda>s. f s = k) xs"
  using sort_key_stable[of "\<lambda>a. - f a" "- k" xs] by simp

text \<open>
  Claim C3, as amended. Without a filter, the values of the scores in best-first order are
  the values in worst-first order reversed, and when the values are pairwise distinct the
  best-first sequence is the exact reverse of the worst-first one. Scores of equal value
  keep the order of the game's list in both results (so there the sequences are not
  reverses). Both results are rearrangements of the game's list, and the best-first one
  ascends for a time-based game and descends otherwise.
\<close>

theorem getScores_best_worst_reverse:
  "\<exists>bs ws. getScores st gameId BEST_FIRST None = Inr bs \<and>
           getScores st gameId WORST_FIRST None = Inr ws \<and>
           map score_value bs = rev (map score_value ws) \<and>
           (distinct (map score_value ws) \<longrightarrow> bs = rev ws) \<and>
           (\<forall>k. filter (\<lambda>s. score_value s = k) bs = filter (\<lambda>s. score_value s = k) ws) \<and>
           (\<forall>g. find (\<lambda>g. game_id g = gameId) (games st) = Some g \<longrightarrow>
                mset bs = mset (scores g) \<and> mset ws = mset (scores g) \<and>
                (\<forall>k. filter (\<lambda>s. score_value s = k) bs
                        = filter (\<lambda>s. score_value s = k) (scores g)) \<and>
                (\<forall>k. filter (\<lambda>s. score_value s = k) ws
                        = filter (\<lambda>s. score_value s = k) (scores g)) \<and>
                (if isTimeBased g then sorted (map score_value bs)
                 else sorted (map score_value ws)))"
proof (cases "find (\<lambda>g. game_id g = gameId) (games st)")
  case None
  then show ?thesis by (simp add: getScores_def)
next
  case (Some g)
  let ?xs = "scores g"
  let ?up = "sort_key score_value ?xs"
  let ?down = "sort_key (\<lambda>a. - score_value a) ?xs"
  have v: "map score_value ?up = rev (map score_value ?down)" by (rule values_asc_desc)
  have e: "distinct (map score_value ?xs) \<Longrightarrow> ?up = rev ?down" by (rule sort_asc_rev_desc)
  have su: "\<And>k. filter (\<lambda>s. score_value s = k) ?up = filter (\<lambda>s. score_value s = k) ?xs"
    by (rule stable_asc)
  have sd: "\<And>k. filter (\<lambda>s. score_value s = k) ?down = filter (\<lambda>s. score_value s = k) ?xs"
    by (rule stable_desc)
  have so: "sorted (map score_value ?up)" by (rule sorted_sort_key)
  show ?thesis
  proof (cases "isTimeBased g")
    case True
    with Some have b: "getScores st gameId BEST_FIRST None = Inr ?up"
      and w: "getScores st gameId WORST_FIRST None = Inr ?down"
      by (simp_all add: getScores_def apply_filter_def apply_limit_def js_sort_asc js_sort_desc)
    have "map score_value ?up = rev (map score_value ?down) \<and>
          (distinct (map score_value ?down) \<longrightarrow> ?up = rev ?down) \<and>
          (\<forall>k. filter (\<lambda>s. score_value s = k) ?up = filter (\<lambda>s. score_value s = k) ?down) \<and>
          (\<forall>g'. find (\<lambda>g. game_id g = gameId) (games st) = Some g' \<longrightarrow>
                mset ?up = mset (scores g') \<and> mset ?down = mset (scores g') \<and>
                (\<forall>k. filter (\<lambda>s. score_value s = k) ?up
                        = filter (\<lambda>s. score_value s = k) (scores g')) \<and>
                (\<forall>k. filter (\<lambda>s. score_value s = k) ?down
                        = filter (\<lambda>s. score_value s = k) (scores g')) \<and>
                (if isTimeBased g' then sorted (map score_value ?up)
                 else sorted (map score_value ?down)))"
      using v e su sd so Some True by (simp add: distinct_sort_key)
    with b w show ?thesis by blast
  next
    case False
    with Some have b: "getScores st gameId BEST_FIRST None = Inr ?down"
      and w: "getScores st gameId WORST_FIRST None = Inr ?up"
      by (simp_all add: getScores_def apply_filter_def apply_limit_def js_sort_asc js_sort_desc)
    have v': "map score_value ?down = rev (map score_value ?up)" using v by simp
    have e': "distinct (map score_value ?xs) \<Longrightarrow> ?down = rev ?up" using e by simp
    have "map score_value ?down = rev (map score_value ?up) \<and>
          (distinct (map score_value ?up) \<longrightarrow> ?down = rev ?up) \<and>
          (\<forall>k. filter (\<lambda>s. score_value s = k) ?down = filter (\<lambda>s. score_value s = k) ?up) \<and>
          (\<forall>g'. find (\<lambda>g. game_id g = gameId) (games st) = Some g' \<longrightarrow>
                mset ?down = mset (scores g') \<and> mset ?up = mset (scores g') \<and>
                (\<forall>k. filter (\<lambda>s. score_value s = k) ?down
                        = filter (\<lambda>s. score_value s = k) (scores g')) \<and>
                (\<forall>k. filter (\<lambda>s. score_value s = k) ?up
                        = filter (\<lambda>s. score_value s = k) (scores g')) \<and>
                (if isTimeBased g' then sorted (map score_value ?down)
                 else sorted (map score_value ?up)))"
      using v' e' su sd so Some False by (simp add: distinct_sort_key)
    with b w show ?thesis by blast
  qed
qed

section \<open>getLeaderboard\<close>

lemma getBestScore_None_iff:
  assumes "find (\<lambda>g. game_id g = gameId) (games st) = Some g"
  shows "getBestScore st gameId pid = None \<longleftrightarrow> (\<forall>s \<in> set (scores g). playerId s \<noteq> pid)"
proof -
  have "getBestScore st gameId pid = None \<longleftrightarrow> filter (\<lambda>s. playerId s = pid) (scores g) = []"
    using assms by (simp add: getBestScore_def split: list.splits)
  then show ?thesis by (simp add: filter_empty_conv)
qed

lemma board_entries_players:
  "map player (board_entries st gameId ps) =
     filter (\<lambda>p. getBestScore st gameId (player_id p) \<noteq> None) ps"
  by (induction ps) (auto simp: board_entries_def split: option.splits)

lemma board_entries_best:
  "e \<in> set (board_entries st gameId ps) \<Longrightarrow>
     player e \<in> set ps \<and> getBestScore st gameId (player_id (player e)) = Some (bestScore e)"
  by (induction ps) (auto simp: board_entries_def split: option.splits)

lemma mset_take_subseteq: "mset (take n xs) \<subseteq># mset xs"
proof -
  have "mset xs = mset (take n xs) + mset (drop n xs)"
    by (metis append_take_drop_id mset_append)
  then show ?thesis by simp
qed

lemma getLeaderboard_unfold:
  assumes "find (\<lambda>g. game_id g = gameId) (games st) = Some g"
    and "limit_arg = Some (int n) \<or> (limit_arg = None \<and> n = 10)"
  shows "getLeaderboard st gameId limit_arg =
           take n (if isTimeBased g
                   then sort_key (\<lambda>e. score_value (bestScore e)) (board_entries st gameId (players st))
                   else sort_key (\<lambda>e. - score_value (bestScore e)) (board_entries st gameId (players st)))"
  using assms
  by (auto simp: getLeaderboard_def slice0_def board_entries_def js_sort_asc js_sort_desc)

lemma ranked_take_sort:
  "ranked tb (take n (if tb then sort_key (\<lambda>e. score_value (bestScore e)) es
                      else sort_key (\<lambda>e. - score_value (bestScore e)) es))"
proof (cases tb)
  case True
  have "sorted (map (\<lambda>e. score_value (bestScore e)) (sort_key (\<lambda>e. score_value (bestScore e)) es))"
    by (rule sorted_sort_key)
  then show ?thesis using True by (simp add: ranked_def sorted_map)
next
  case False
  have "sorted (map (\<lambda>e. - score_value (bestScore e)) (sort_key (\<lambda>e. - score_value (bestScore e)) es))"
    by (rule sorted_sort_key)
  then have "sorted_wrt (\<lambda>x y. score_value (bestScore y) \<le> score_value (bestScore x))
               (take n (sort_key (\<lambda>e. - score_value (bestScore e)) es))"
    by (simp add: sorted_map)
  then show ?thesis using False by (simp add: ranked_def sorted_wrt_map sorted_wrt_rev)
qed

lemma board_entries_same_value:
  "map player (filter (\<lambda>e. score_value (bestScore e) = k) (board_entries st gameId ps)) =
     filter (\<lambda>p. \<exists>b. getBestScore st gameId (player_id p) = Some b \<and> score_value b = k) ps"
  by (induction ps) (auto simp: board_entries_def split: option.splits)

text \<open>
  Claim C1. For a game of the store and a limit \<open>n\<close> (a count; 10 when the argument is
  omitted): every entry of the leaderboard pairs a known player who has a score in the game
  with that player's best score, which is a score of the player in the game's list that no
  other score of the player beats (and the first added of those); no player is entered
  more often than the roster holds them; the board has \<open>min n k\<close> entries, \<open>k\<close> being the
  number of known players with a score, so all of them when \<open>k \<le> n\<close>; the entries are in
  ascending order of value for a time-based game and in descending order otherwise; the
  board is the first \<open>n\<close> entries of the untruncated one; and in the untruncated board the
  players whose best scores have the same value stand in roster order.
\<close>

theorem getLeaderboard_entries:
  assumes g: "find (\<lambda>g. game_id g = gameId) (games st) = Some g"
    and lim: "limit_arg = Some (int n) \<or> (limit_arg = None \<and> n = 10)"
  shows "(\<forall>e \<in> set (getLeaderboard st gameId limit_arg).
            player e \<in> set (players st) \<and> has_score g (player e) \<and>
            getBestScore st gameId (player_id (player e)) = Some (bestScore e) \<and>
            (\<exists>ys zs. scores g = ys @ bestScore e # zs \<and>
               playerId (bestScore e) = player_id (player e) \<and>
               (\<forall>y \<in> set ys. playerId y = player_id (player e) \<longrightarrow>
                  beats (isTimeBased g) (bestScore e) y) \<and>
               (\<forall>z \<in> set zs. playerId z = player_id (player e) \<longrightarrow>
                  no_worse (isTimeBased g) (bestScore e) z))) \<and>
         mset (map player (getLeaderboard st gameId limit_arg))
           \<subseteq># mset (filter (has_score g) (players st)) \<and>
         length (getLeaderboard st gameId limit_arg)
           = min n (length (filter (has_score g) (players st))) \<and>
         (length (filter (has_score g) (players st)) \<le> n \<longrightarrow>
            mset (map player (getLeaderboard st gameId limit_arg))
              = mset (filter (has_score g) (players st))) \<and>
         ranked (isTimeBased g) (getLeaderboard st gameId limit_arg) \<and>
         getLeaderboard st gameId limit_arg
           = take n (getLeaderboard st gameId (Some (int (length (players st))))) \<and>
         (\<forall>k. map player (filter (\<lambda>e. score_value (bestScore e) = k)
                            (getLeaderboard st gameId (Some (int (length (players st))))))
              = filter (\<lambda>p. \<exists>b. getBestScore st gameId (player_id p) = Some b \<and> score_value b = k)
                  (players st))"
proof -
  let ?es = "board_entries st gameId (players st)"
  let ?sorted = "if isTimeBased g then sort_key (\<lambda>e. score_value (bestScore e)) ?es
                 else sort_key (\<lambda>e. - score_value (bestScore e)) ?es"
  let ?lb = "getLeaderboard st gameId limit_arg"
  have lb: "?lb = take n ?sorted" by (rule getLeaderboard_unfold[OF g lim])
  have hs: "has_score g p \<longleftrightarrow> getBestScore st gameId (player_id p) \<noteq> None" for p
    using getBestScore_None_iff[OF g] by (auto simp: has_score_def)
  have pl: "map player ?es = filter (has_score g) (players st)"
    unfolding board_entries_players by (rule filter_cong[OF refl]) (simp only: hs)
  have ms: "mset ?sorted = mset ?es" by simp
  have "length ?sorted = length (map player ?es)" by simp
  then have len: "length ?sorted = length (filter (has_score g) (players st))"
    by (simp only: pl)
  have sub: "set ?lb \<subseteq> set ?es"
  proof -
    have "set ?lb \<subseteq> set ?sorted" unfolding lb by (rule set_take_subset)
    also have "set ?sorted = set ?es" by simp
    finally show ?thesis .
  qed
  have 1: "\<forall>e \<in> set ?lb. player e \<in> set (players st) \<and> has_score g (player e) \<and>
             getBestScore st gameId (player_id (player e)) = Some (bestScore e) \<and>
             (\<exists>ys zs. scores g = ys @ bestScore e # zs \<and>
               playerId (bestScore e) = player_id (player e) \<and>
               (\<forall>y \<in> set ys. playerId y = player_id (player e) \<longrightarrow>
                  beats (isTimeBased g) (bestScore e) y) \<and>
               (\<forall>z \<in> set zs. playerId z = player_id (player e) \<longrightarrow>
                  no_worse (isTimeBased g) (bestScore e) z))"
  proof
    fix e assume "e \<in> set ?lb"
    with sub have "e \<in> set ?es" by blast
    from board_entries_best[OF this]
    have p: "player e \<in> set (players st)"
      and b: "getBestScore st gameId (player_id (player e)) = Some (bestScore e)" by simp_all
    from b have h: "has_score g (player e)" by (simp add: hs)
    then have "\<exists>s \<in> set (scores g). playerId s = player_id (player e)"
      by (simp add: has_score_def)
    from getBestScore_decomp[OF g this] b
    have "\<exists>ys zs. scores g = ys @ bestScore e # zs \<and>
               playerId (bestScore e) = player_id (player e) \<and>
               (\<forall>y \<in> set ys. playerId y = player_id (player e) \<longrightarrow>
                  beats (isTimeBased g) (bestScore e) y) \<and>
               (\<forall>z \<in> set zs. playerId z = player_id (player e) \<longrightarrow>
                  no_worse (isTimeBased g) (bestScore e) z)"
      by auto
    with p b h show "player e \<in> set (players st) \<and> has_score g (player e) \<and>
             getBestScore st gameId (player_id (player e)) = Some (bestScore e) \<and>
             (\<exists>ys zs. scores g = ys @ bestScore e # zs \<and>
               playerId (bestScore e) = player_id (player e) \<and>
               (\<forall>y \<in> set ys. playerId y = player_id (player e) \<longrightarrow>
                  beats (isTimeBased g) (bestScore e) y) \<and>
               (\<forall>z \<in> set zs. playerId z = player_id (player e) \<longrightarrow>
                  no_worse (isTimeBased g) (bestScore e) z))"
      by blast
  qed
  have "mset ?lb \<subseteq># mset ?sorted" unfolding lb by (rule mset_take_subseteq)
  then have "image_mset player (mset ?lb) \<subseteq># image_mset player (mset ?sorted)"
    by (rule image_mset_subseteq_mono)
  then have "mset (map player ?lb) \<subseteq># mset (map player ?es)"
    by (simp only: ms mset_map)
  then have 2: "mset (map player ?lb) \<subseteq># mset (filter (has_score g) (players st))"
    by (simp only: pl)
  have 3: "length ?lb = min n (length (filter (has_score g) (players st)))"
    unfolding lb using len by (simp add: min.commute)
  have 4: "mset (map player ?lb) = mset (filter (has_score g) (players st))"
    if "length (filter (has_score g) (players st)) \<le> n"
  proof -
    from that len have "take n ?sorted = ?sorted" by simp
    then have "mset (map player ?lb) = image_mset player (mset ?sorted)"
      by (simp only: lb mset_map)
    then have "mset (map player ?lb) = mset (map player ?es)" by (simp only: ms mset_map)
    then show ?thesis by (simp only: pl)
  qed
  have 5: "ranked (isTimeBased g) ?lb" unfolding lb by (rule ranked_take_sort)
  have full: "getLeaderboard st gameId (Some (int (length (players st)))) =
                take (length (players st)) ?sorted"
    by (rule getLeaderboard_unfold[OF g]) simp
  have "length ?sorted \<le> length (players st)" unfolding len by simp
  then have ts: "take (length (players st)) ?sorted = ?sorted" by simp
  with full lb have 6: "?lb = take n (getLeaderboard st gameId (Some (int (length (players st)))))"
    by simp
  have st': "filter (\<lambda>e. score_value (bestScore e) = k) ?sorted
              = filter (\<lambda>e. score_value (bestScore e) = k) ?es" for k
    by (cases "isTimeBased g") (simp_all add: stable_asc stable_desc)
  have 7: "\<forall>k. map player (filter (\<lambda>e. score_value (bestScore e) = k)
                            (getLeaderboard st gameId (Some (int (length (players st))))))
              = filter (\<lambda>p. \<exists>b. getBestScore st gameId (player_id p) = Some b \<and> score_value b = k)
                  (players st)"
    unfolding full ts st' by (simp only: board_entries_same_value) simp
  from 1 2 3 4 5 6 7 show ?thesis by blast
qed

section \<open>StorageService: saving and loading\<close>

lemma new_Date_json_time: "valid_time t \<Longrightarrow> new_Date (json_time t) = t"
  by (cases t) (simp_all add: valid_time_def)

lemma deserialize_json_score:
  "valid_time (achievedAt s) \<Longrightarrow> (json_score s)\<lparr>achievedAt := new_Date (achievedAt (json_score s))\<rparr> = s"
  by (simp add: json_score_def new_Date_json_time)

lemma deserialize_json_game: "valid_game g \<Longrightarrow> deserializeGame (json_game g) = g"
proof -
  assume v: "valid_game g"
  then have "map (\<lambda>s. s\<lparr>achievedAt := new_Date (achievedAt s)\<rparr>) (map json_score (scores g)) = scores g"
    by (auto simp: valid_game_def list_all_iff deserialize_json_score intro!: map_idI)
  with v show ?thesis
    by (simp add: deserializeGame_def json_game_def valid_game_def new_Date_json_time)
qed

lemma map_of_stored:
  "map_of (map (\<lambda>(k, f). (k, json_file f)) gs) k = map_option json_file (map_of gs k)"
  by (induction gs) auto

lemma getGames_object:
  assumes "\<not> getItem_throws ls" "ls_item ls \<noteq> Some JsonNull"
  shows "\<exists>d. getGamesFromStorage ls = GObject d"
proof (cases "ls_item ls")
  case None
  with assms show ?thesis by (simp add: getGamesFromStorage_def)
next
  case (Some i)
  with assms show ?thesis by (cases i) (simp_all add: getGamesFromStorage_def)
qed

lemma getGames_saved:
  assumes "\<not> getItem_throws ls" "\<not> setItem_throws ls"
  shows "getGamesFromStorage (saveGamesToStorage gs ls)
           = GObject (map (\<lambda>(k, f). (k, json_file f)) gs)"
  using assms by (simp add: getGamesFromStorage_def saveGamesToStorage_def)

lemma map_of_set_property: "k \<noteq> ''__proto__'' \<Longrightarrow> map_of (set_property k v d) k = Some v"
  by (simp add: set_property_def update_conv')

text \<open>
  Claim C4, as amended. For a valid game \<open>g\<close> whose id is not \<open>__proto__\<close>, over a storage
  that can be read and written and whose item is absent, unparsable or an object,
  \<open>saveGame g\<close> reports success, and \<open>loadGame\<close> on the id of \<open>g\<close> then reports success
  with a game equal to \<open>g\<close> in every field, nested scores and timestamps included.
\<close>

theorem save_then_load:
  assumes "valid_game g" and "game_id g \<noteq> ''__proto__''"
    and "\<not> getItem_throws ls" and "\<not> setItem_throws ls" and "ls_item ls \<noteq> Some JsonNull"
  shows "fst (saveGame g ls) = Resolved (ApiResponse True (Some True) None) \<and>
         fst (loadGame (game_id g) (snd (saveGame g ls))) = Resolved (ApiResponse True (Some g) None)"
proof -
  from getGames_object[OF assms(3) assms(5)] obtain d where d: "getGamesFromStorage ls = GObject d"
    by blast
  let ?f = "\<lparr>file_game = g, version = ''1.0''\<rparr>"
  let ?d = "set_property (game_id g) ?f d"
  have s: "saveGame g ls = (Resolved (ApiResponse True (Some True) None), saveGamesToStorage ?d ls)"
    using d by (simp add: saveGame_def)
  have "getGamesFromStorage (saveGamesToStorage ?d ls) = GObject (map (\<lambda>(k, f). (k, json_file f)) ?d)"
    by (rule getGames_saved[OF assms(3) assms(4)])
  moreover have "get_property (map (\<lambda>(k, f). (k, json_file f)) ?d) (game_id g) = Own (json_file ?f)"
    by (simp add: get_property_def map_of_stored map_of_set_property[OF assms(2)])
  ultimately have "fst (loadGame (game_id g) (saveGamesToStorage ?d ls))
                     = Resolved (ApiResponse True (Some (deserializeGame (json_game g))) None)"
    by (simp add: loadGame_def json_file_def)
  with s assms(1) show ?thesis by (simp add: deserialize_json_game)
qed

section \<open>What the store's methods return\<close>

lemma createGame_result:
  assumes "svc_saveGame svc \<lparr>game_id = new_id, game_name = name, description = descr,
             isTimeBased = tb, scores = [], createdAt = Undefined, updatedAt = Undefined\<rparr> b = (res, b')"
  shows "createGame svc new_id name descr tb (st, b) =
           (if saved res
            then (Some new_id,
                  st\<lparr>games := games st @ [\<lparr>game_id = new_id, game_name = name, description = descr,
                         isTimeBased = tb, scores = [], createdAt = Undefined, updatedAt = Undefined\<rparr>],
                     isLoading := False, error := None\<rparr>, b')
            else (None, st\<lparr>isLoading := False,
                           error := Some (failure_text res ''Failed to save game'')\<rparr>, b'))"
  using assms by (cases res) (simp_all add: createGame_def saved_def failure_text_def)

lemma findIndex_find:
  "find P xs = Some x \<Longrightarrow> \<exists>i. findIndex P xs = Some i \<and> i < length xs \<and> xs ! i = x \<and> (\<forall>j < i. \<not> P (xs ! j))"
proof (induction xs)
  case Nil
  then show ?case by simp
next
  case (Cons a xs)
  show ?case
  proof (cases "P a")
    case True
    with Cons.prems show ?thesis by simp
  next
    case False
    with Cons obtain i where i: "findIndex P xs = Some i" "i < length xs" "xs ! i = x" "\<forall>j < i. \<not> P (xs ! j)"
      by auto
    have "\<forall>j < Suc i. \<not> P ((a # xs) ! j)"
      using False i(4) by (auto simp: less_Suc_eq_0_disj)
    with False i show ?thesis by simp
  qed
qed

lemma addScore_result:
  assumes f: "find (\<lambda>g. game_id g = gameId) (games st) = Some g"
    and s: "svc_saveGame svc (g\<lparr>scores := scores g @
               [\<lparr>score_id = new_id, playerId = pid, playerName = pname, score_value = v,
                 isTime = isTimeBased g, achievedAt = DateMs now, score_notes = nts\<rparr>]\<rparr>) b = (res, b')"
  shows "\<exists>i < length (games st). games st ! i = g \<and> (\<forall>j < i. game_id (games st ! j) \<noteq> gameId) \<and>
          addScore svc new_id now gameId pid pname v nts (st, b) =
           (if saved res
            then (True,
                  st\<lparr>games := (games st)[i := g\<lparr>scores := scores g @
                         [\<lparr>score_id = new_id, playerId = pid, playerName = pname, score_value = v,
                           isTime = isTimeBased g, achievedAt = DateMs now, score_notes = nts\<rparr>]\<rparr>],
                     isLoading := False, error := None\<rparr>, b')
            else (False, st\<lparr>isLoading := False,
                            error := Some (failure_text res ''Failed to save score'')\<rparr>, b'))"
proof -
  from findIndex_find[OF f] obtain i where i: "findIndex (\<lambda>g. game_id g = gameId) (games st) = Some i"
    "i < length (games st)" "games st ! i = g" "\<forall>j < i. game_id (games st ! j) \<noteq> gameId" by blast
  have "addScore svc new_id now gameId pid pname v nts (st, b) =
           (if saved res
            then (True,
                  st\<lparr>games := (games st)[i := g\<lparr>scores := scores g @
                         [\<lparr>score_id = new_id, playerId = pid, playerName = pname, score_value = v,
                           isTime = isTimeBased g, achievedAt = DateMs now, score_notes = nts\<rparr>]\<rparr>],
                     isLoading := False, error := None\<rparr>, b')
            else (False, st\<lparr>isLoading := False,
                            error := Some (failure_text res ''Failed to save score'')\<rparr>, b'))"
    using f s i(1) by (cases res) (simp_all add: addScore_def saved_def failure_text_def)
  with i show ?thesis by blast
qed

lemma deleteGame_result:
  assumes "svc_deleteGame svc gameId b = (res, b')"
  shows "deleteGame svc gameId (st, b) =
           (if saved res
            then (True,
                  st\<lparr>games := filter (\<lambda>g. game_id g \<noteq> gameId) (games st),
                     currentGame := (case currentGame st of None \<Rightarrow> None
                                     | Some c \<Rightarrow> if game_id c = gameId then None else Some c),
                     isLoading := False, error := None\<rparr>, b')
            else (False, st\<lparr>isLoading := False,
                            error := Some (failure_text res ''Failed to delete game'')\<rparr>, b'))"
  using assms by (cases res) (simp_all add: deleteGame_def saved_def failure_text_def)


section \<open>addScore on an unknown game\<close>

lemma find_none_id: "gameId \<notin> game_id ` set gs \<Longrightarrow> find (\<lambda>g. game_id g = gameId) gs = None"
  by (induction gs) auto

text \<open>
  Claim C5. When no game of the store has the given id, \<open>addScore\<close> returns \<open>false\<close>, and
  it leaves the games collection (and the backend) as it was: only \<open>isLoading\<close> and
  \<open>error\<close> are set, the error being "Game not found".
\<close>

theorem addScore_unknown_game:
  assumes "gameId \<notin> game_id ` set (games st)"
  shows "fst (addScore svc new_id now gameId pid pname v nts (st, b)) = False \<and>
         games (fst (snd (addScore svc new_id now gameId pid pname v nts (st, b)))) = games st \<and>
         length (games (fst (snd (addScore svc new_id now gameId pid pname v nts (st, b)))))
           = length (games st) \<and>
         error (fst (snd (addScore svc new_id now gameId pid pname v nts (st, b))))
           = Some ''Game not found'' \<and>
         snd (snd (addScore svc new_id now gameId pid pname v nts (st, b))) = b"
  using find_none_id[OF assms] by (simp add: addScore_def)

section \<open>The scores of a game match its kind\<close>

lemma scores_match_json: "scores_match (json_game g) = scores_match g"
  by (simp add: scores_match_def json_game_def json_score_def list_all_iff)

lemma scores_match_deserialize: "scores_match (deserializeGame g) = scores_match g"
  by (simp add: scores_match_def deserializeGame_def list_all_iff)

lemma getGames_ok:
  assumes "storage_ok ls" "getGamesFromStorage ls = GObject d"
  shows "list_all (\<lambda>(k, f). scores_match (file_game f)) d"
proof (cases "getItem_throws ls")
  case True
  with assms(2) show ?thesis by (simp add: getGamesFromStorage_def)
next
  case False
  show ?thesis
  proof (cases "ls_item ls")
    case None
    with False assms(2) show ?thesis by (simp add: getGamesFromStorage_def)
  next
    case (Some i)
    with False assms show ?thesis
      by (cases i) (auto simp: getGamesFromStorage_def storage_ok_def)
  qed
qed

lemma storage_ok_save:
  assumes "storage_ok ls" "list_all (\<lambda>(k, f). scores_match (file_game f)) gs"
  shows "storage_ok (saveGamesToStorage gs ls)"
  using assms
  by (auto simp: storage_ok_def saveGamesToStorage_def list_all_iff json_file_def
        scores_match_json)

lemma list_all_update:
  "list_all (\<lambda>(k, f). P f) gs \<Longrightarrow> P v \<Longrightarrow> list_all (\<lambda>(k, f). P f) (AList.update k v gs)"
  by (induction gs) auto

lemma list_all_set_property:
  "list_all (\<lambda>(k, f). P f) gs \<Longrightarrow> P v \<Longrightarrow> list_all (\<lambda>(k, f). P f) (set_property k v gs)"
  by (simp add: set_property_def list_all_update)

lemma list_all_delete:
  "list_all (\<lambda>(k, f). P f) gs \<Longrightarrow> list_all (\<lambda>(k, f). P f) (AList.delete k gs)"
  by (induction gs) auto

lemma saveGame_ok:
  assumes "storage_ok ls" "scores_match g"
  shows "storage_ok (snd (saveGame g ls))"
proof (cases "getGamesFromStorage ls")
  case GNull
  with assms show ?thesis by (simp add: saveGame_def)
next
  case (GObject d)
  from getGames_ok[OF assms(1) GObject] assms(2)
  have "list_all (\<lambda>(k, f). scores_match (file_game f))
          (set_property (game_id g) \<lparr>file_game = g, version = ''1.0''\<rparr> d)"
    by (intro list_all_set_property) simp_all
  from storage_ok_save[OF assms(1) this] GObject show ?thesis by (simp add: saveGame_def)
qed

lemma storage_deleteGame_ok:
  assumes "storage_ok ls"
  shows "storage_ok (snd (storage_deleteGame gameId ls))"
proof (cases "getGamesFromStorage ls")
  case GNull
  with assms show ?thesis by (simp add: storage_deleteGame_def)
next
  case (GObject d)
  note ok = getGames_ok[OF assms GObject]
  from storage_ok_save[OF assms ok] storage_ok_save[OF assms list_all_delete[OF ok]] assms GObject
  show ?thesis by (simp add: storage_deleteGame_def split: js_lookup.splits)
qed

lemma loadGame_ok:
  assumes "storage_ok ls"
  shows "snd (loadGame gameId ls) = ls"
    and "fst (loadGame gameId ls) = Resolved r \<Longrightarrow> data r = Some g \<Longrightarrow> scores_match g"
proof -
  show "snd (loadGame gameId ls) = ls"
    by (simp add: loadGame_def split: js_games.splits js_lookup.splits)
  assume r: "fst (loadGame gameId ls) = Resolved r" "data r = Some g"
  then obtain d f where d: "getGamesFromStorage ls = GObject d"
    and f: "map_of d gameId = Some f" and g: "g = deserializeGame (file_game f)"
    by (auto simp: loadGame_def get_property_def
          split: js_games.splits js_lookup.splits option.splits if_splits)
  from f have "(gameId, f) \<in> set d" by (rule map_of_SomeD)
  with getGames_ok[OF assms d] have "scores_match (file_game f)" by (auto simp: list_all_iff)
  with g show "scores_match g" by (simp add: scores_match_deserialize)
qed

lemma svc_StorageService [simp]:
  "svc_saveGame StorageService = saveGame"
  "svc_loadGame StorageService = loadGame"
  "svc_listGames StorageService = listGames"
  "svc_deleteGame StorageService = storage_deleteGame"
  by (simp_all add: StorageService_def)

lemma load_each_ok:
  assumes "storage_ok ls" "list_all scores_match acc"
  shows "snd (load_each StorageService ss acc ls) = ls \<and>
         (\<forall>gs. fst (load_each StorageService ss acc ls) = Inr gs \<longrightarrow> list_all scores_match gs)"
  using assms(2)
proof (induction ss arbitrary: acc)
  case Nil
  then show ?case by simp
next
  case (Cons s ss)
  obtain o' l' where lg: "loadGame (summary_id s) ls = (o', l')" by (cases "loadGame (summary_id s) ls")
  with loadGame_ok(1)[OF assms(1), of "summary_id s"] have l': "l' = ls" by simp
  show ?case
  proof (cases o')
    case (Rejected e)
    with lg l' show ?thesis by simp
  next
    case (Resolved r)
    show ?thesis
    proof (cases "data r")
      case None
      with Resolved lg l' Cons.IH[OF Cons.prems] show ?thesis by simp
    next
      case (Some g)
      with loadGame_ok(2)[OF assms(1), of "summary_id s" r g] lg Resolved
      have "scores_match g" by simp
      with Cons.prems have "list_all scores_match (acc @ [g])" by simp
      from Cons.IH[OF this] Cons.IH[OF Cons.prems] Some Resolved lg l' show ?thesis by simp
    qed
  qed
qed

lemma loadGames_result:
  assumes "svc_listGames svc b = (Resolved (ApiResponse True (Some ss) None), b1)"
    and "load_each svc ss [] b1 = (res, b2)"
  shows "loadGames svc (st, b) =
           (case res of
              Inl e \<Rightarrow> (st\<lparr>isLoading := False, error := Some (error_message e)\<rparr>, b2)
            | Inr gs \<Rightarrow> (st\<lparr>games := gs, isLoading := False, error := None\<rparr>, b2))"
  using assms by (cases res) (simp_all add: loadGames_def)

lemma loadGames_failed:
  assumes "svc_listGames svc b = (Resolved (ApiResponse False x e), b1)"
  shows "loadGames svc (st, b) =
           (st\<lparr>isLoading := False,
               error := Some (or_default e ''Failed to load games'')\<rparr>, b1)"
  using assms by (simp add: loadGames_def)

lemma listGames_result:
  "(\<exists>ss. listGames ls = (Resolved (ApiResponse True (Some ss) None), ls)) \<or>
   (\<exists>e. listGames ls = (Resolved (ApiResponse False None e), ls))"
  by (cases "getGamesFromStorage ls") (simp_all add: listGames_def)

lemma loadGames_ok:
  assumes ok: "system_ok sb"
  shows "system_ok (loadGames StorageService sb)"
proof -
  obtain st ls where sb: "sb = (st, ls)" by (cases sb)
  from ok sb have s: "store_ok st" and l: "storage_ok ls" by (simp_all add: system_ok_def)
  from listGames_result[of ls] show ?thesis
  proof
    assume "\<exists>ss. listGames ls = (Resolved (ApiResponse True (Some ss) None), ls)"
    then obtain ss where
      lst: "svc_listGames StorageService ls = (Resolved (ApiResponse True (Some ss) None), ls)"
      by auto
    obtain res l2 where r: "load_each StorageService ss [] ls = (res, l2)"
      by (cases "load_each StorageService ss [] ls")
    from load_each_ok[OF l, of "[]" ss] r
    have l2: "l2 = ls" and gs: "\<And>gs. res = Inr gs \<Longrightarrow> list_all scores_match gs"
      by simp_all
    show ?thesis
      unfolding sb loadGames_result[OF lst r]
      using s l l2 gs by (cases res) (simp_all add: system_ok_def store_ok_def)
  next
    assume "\<exists>e. listGames ls = (Resolved (ApiResponse False None e), ls)"
    then obtain e where
      lst: "svc_listGames StorageService ls = (Resolved (ApiResponse False None e), ls)"
      by auto
    show ?thesis
      unfolding sb loadGames_failed[OF lst]
      using s l by (simp add: system_ok_def store_ok_def)
  qed
qed

lemma createGame_ok:
  assumes "system_ok sb"
  shows "system_ok (snd (createGame StorageService new_id name descr tb sb))"
proof -
  obtain st ls where sb: "sb = (st, ls)" by (cases sb)
  let ?g = "\<lparr>game_id = new_id, game_name = name, description = descr,
             isTimeBased = tb, scores = [], createdAt = Undefined, updatedAt = Undefined\<rparr>"
  obtain res ls' where sv: "svc_saveGame StorageService ?g ls = (res, ls')"
    by (cases "svc_saveGame StorageService ?g ls")
  have m: "scores_match ?g" by (simp add: scores_match_def)
  from sv have "ls' = snd (saveGame ?g ls)" by simp
  with assms sb m have l: "storage_ok ls'" by (simp add: system_ok_def saveGame_ok)
  from assms sb m l show ?thesis
    unfolding sb createGame_result[OF sv] by (simp add: system_ok_def store_ok_def)
qed

lemma addScore_ok:
  assumes "system_ok sb"
  shows "system_ok (snd (addScore StorageService new_id now gameId pid pname v nts sb))"
proof -
  obtain st ls where sb: "sb = (st, ls)" by (cases sb)
  show ?thesis
  proof (cases "find (\<lambda>g. game_id g = gameId) (games st)")
    case None
    with assms sb show ?thesis by (simp add: addScore_def system_ok_def store_ok_def)
  next
    case (Some g)
    let ?g = "g\<lparr>scores := scores g @
               [\<lparr>score_id = new_id, playerId = pid, playerName = pname, score_value = v,
                 isTime = isTimeBased g, achievedAt = DateMs now, score_notes = nts\<rparr>]\<rparr>"
    obtain res ls' where sv: "svc_saveGame StorageService ?g ls = (res, ls')"
      by (cases "svc_saveGame StorageService ?g ls")
    from Some have "g \<in> set (games st)" by (auto simp: find_Some_iff)
    with assms sb have "scores_match g" by (simp add: system_ok_def store_ok_def list_all_iff)
    then have m: "scores_match ?g" by (simp add: scores_match_def)
    from sv have "ls' = snd (saveGame ?g ls)" by simp
    with assms sb m have l: "storage_ok ls'" by (simp add: system_ok_def saveGame_ok)
    from addScore_result[OF Some sv] obtain i where
      r: "addScore StorageService new_id now gameId pid pname v nts (st, ls) =
           (if saved res
            then (True, st\<lparr>games := (games st)[i := ?g], isLoading := False, error := None\<rparr>, ls')
            else (False, st\<lparr>isLoading := False,
                            error := Some (failure_text res ''Failed to save score'')\<rparr>, ls'))"
      by blast
    have "list_all scores_match ((games st)[i := ?g])"
      using assms sb m by (auto simp: system_ok_def store_ok_def list_all_iff dest: set_update_subset_insert[THEN subsetD])
    with assms sb l show ?thesis
      unfolding sb r by (simp add: system_ok_def store_ok_def)
  qed
qed

lemma deleteGame_ok:
  assumes "system_ok sb"
  shows "system_ok (snd (deleteGame StorageService gameId sb))"
proof -
  obtain st ls where sb: "sb = (st, ls)" by (cases sb)
  obtain res ls' where d: "svc_deleteGame StorageService gameId ls = (res, ls')"
    by (cases "svc_deleteGame StorageService gameId ls")
  then have "ls' = snd (storage_deleteGame gameId ls)" by simp
  with assms sb have l: "storage_ok ls'" by (simp add: system_ok_def storage_deleteGame_ok)
  from assms sb l show ?thesis
    unfolding sb deleteGame_result[OF d]
    by (auto simp: system_ok_def store_ok_def list_all_iff split: option.splits)
qed

lemma initializeSampleData_ok: "store_ok (initializeSampleData id1 id2 id3 id4 id5 now)"
  by (simp add: initializeSampleData_def store_ok_def scores_match_def)

lemma find_ok: "list_all P xs \<Longrightarrow> find Q xs = Some x \<Longrightarrow> P x"
  by (auto simp: find_Some_iff list_all_iff)

lemma setCurrentGame_ok: "store_ok st \<Longrightarrow> store_ok (setCurrentGame gameId st)"
  by (auto simp: setCurrentGame_def store_ok_def split: option.splits dest: find_ok)

lemma addPlayer_ok: "store_ok st \<Longrightarrow> store_ok (snd (addPlayer new_id now name st))"
  by (simp add: addPlayer_def store_ok_def)

lemma reachable_ok: "reachable sb \<Longrightarrow> system_ok sb"
proof (induction rule: reachable.induct)
  case (first_load ls id1 id2 id3 id4 id5 now)
  then show ?case
    by (simp add: system_ok_def initializeSampleData_ok storage_ok_def)
next
  case (page_load st ls id1 id2 id3 id4 id5 now)
  then show ?case by (simp add: system_ok_def initializeSampleData_ok)
next
  case (storage_mood st ls r w)
  then show ?case by (simp add: system_ok_def storage_ok_def)
next
  case (do_loadGames sb)
  then show ?case by (simp add: loadGames_ok)
next
  case (do_createGame sb new_id name descr tb)
  then show ?case by (simp add: createGame_ok)
next
  case (do_addScore sb new_id now gameId pid pname v nts)
  then show ?case by (simp add: addScore_ok)
next
  case (do_deleteGame sb gameId)
  then show ?case by (simp add: deleteGame_ok)
next
  case (do_addPlayer st ls new_id now name)
  then show ?case by (simp add: system_ok_def addPlayer_ok)
next
  case (do_setCurrentGame st ls gameId)
  then show ?case by (simp add: system_ok_def setCurrentGame_ok)
qed

text \<open>
  Claim C10. In every state the application reaches (page loads, \<open>loadGames\<close>,
  \<open>createGame\<close>, \<open>addScore\<close>, \<open>deleteGame\<close>, \<open>addPlayer\<close>, \<open>setCurrentGame\<close>, over the
  localStorage backend, whether or not its reads and writes go through), every score of every game of the store has \<open>isTime\<close> equal to the
  game's \<open>isTimeBased\<close>.
\<close>

theorem reachable_scores_match:
  assumes "reachable (st, ls)"
  shows "\<forall>g \<in> set (games st). \<forall>s \<in> set (scores g). isTime s = isTimeBased g"
  using reachable_ok[OF assms]
  by (simp add: system_ok_def store_ok_def scores_match_def list_all_iff)

section \<open>createGame\<close>

text \<open>The equations that evaluate the storage service on a concrete storage.\<close>

lemmas storage_eval =
  saveGame_def loadGame_def listGames_def storage_deleteGame_def getGamesFromStorage_def
  saveGamesToStorage_def set_property_def get_property_def object_prototype_keys_def
  json_file_def json_game_def json_score_def deserializeGame_def
  fresh_storage_def full_storage_def Let_def

text \<open>
  \<open>createGame\<close> builds a game with the generated id, the given name, description and kind,
  and an empty scores list, and hands it to \<open>saveGame\<close>. When the save succeeds, it returns
  that id and the store's games are the old ones followed by the new game; when the save
  fails or throws, it returns \<open>null\<close> and the games are unchanged.
\<close>

lemma createGame_appends_after_save:
  "\<exists>newGame. game_id newGame = new_id \<and> game_name newGame = name \<and> description newGame = descr \<and>
      isTimeBased newGame = tb \<and> scores newGame = [] \<and>
      (saved (fst (svc_saveGame svc newGame b)) \<longrightarrow>
         createGame svc new_id name descr tb (st, b) =
           (Some new_id, st\<lparr>games := games st @ [newGame], isLoading := False, error := None\<rparr>,
            snd (svc_saveGame svc newGame b))) \<and>
      (\<not> saved (fst (svc_saveGame svc newGame b)) \<longrightarrow>
         fst (createGame svc new_id name descr tb (st, b)) = None \<and>
         games (fst (snd (createGame svc new_id name descr tb (st, b)))) = games st)"
proof -
  let ?g = "\<lparr>game_id = new_id, game_name = name, description = descr,
             isTimeBased = tb, scores = [], createdAt = Undefined, updatedAt = Undefined\<rparr>"
  have r: "createGame svc new_id name descr tb (st, b) =
           (if saved (fst (svc_saveGame svc ?g b))
            then (Some new_id, st\<lparr>games := games st @ [?g], isLoading := False, error := None\<rparr>,
                  snd (svc_saveGame svc ?g b))
            else (None, st\<lparr>isLoading := False,
                           error := Some (failure_text (fst (svc_saveGame svc ?g b)) ''Failed to save game'')\<rparr>,
                  snd (svc_saveGame svc ?g b)))"
    by (rule createGame_result) simp
  show ?thesis
    by (rule exI[of _ ?g]) (simp add: r)
qed

text \<open>
  The id is the one \<open>uuidv4()\<close> hands out; \<open>createGame\<close> does not compare it with the ids in
  use. On a save that fails, nothing happens to the games; on a successful one the new id
  is the last.
\<close>

lemma createGame_ids:
  "map game_id (games (fst (snd (createGame svc new_id name descr tb (st, b))))) =
     (if fst (createGame svc new_id name descr tb (st, b)) = None then map game_id (games st)
      else map game_id (games st) @ [new_id])"
proof -
  let ?g = "\<lparr>game_id = new_id, game_name = name, description = descr,
             isTimeBased = tb, scores = [], createdAt = Undefined, updatedAt = Undefined\<rparr>"
  have "createGame svc new_id name descr tb (st, b) =
           (if saved (fst (svc_saveGame svc ?g b))
            then (Some new_id, st\<lparr>games := games st @ [?g], isLoading := False, error := None\<rparr>,
                  snd (svc_saveGame svc ?g b))
            else (None, st\<lparr>isLoading := False,
                           error := Some (failure_text (fst (svc_saveGame svc ?g b)) ''Failed to save game'')\<rparr>,
                  snd (svc_saveGame svc ?g b)))"
    by (rule createGame_result) simp
  then show ?thesis by simp
qed

text \<open>
  Claim C9. The claim has the new game carry \<open>createdAt\<close> and \<open>updatedAt\<close>, both equal to the
  creation time. The code does not set them: creating the game "Chess" in the sample store
  over a working, empty storage succeeds and returns the new id, and afterwards neither
  game of the store (the sample game, the new game) has a \<open>createdAt\<close> or an \<open>updatedAt\<close>.
\<close>

theorem createGame_no_timestamps:
  "fst (createGame StorageService ''chess'' ''Chess'' None False (sample_store, fresh_storage))
     = Some ''chess'' \<and>
   map game_id (games (fst (snd (createGame StorageService ''chess'' ''Chess'' None False
                                   (sample_store, fresh_storage))))) = [''racing'', ''chess''] \<and>
   map createdAt (games (fst (snd (createGame StorageService ''chess'' ''Chess'' None False
                                     (sample_store, fresh_storage))))) = [Undefined, Undefined] \<and>
   map updatedAt (games (fst (snd (createGame StorageService ''chess'' ''Chess'' None False
                                     (sample_store, fresh_storage))))) = [Undefined, Undefined]"
  by (simp add: createGame_def storage_eval sample_store_def initializeSampleData_def)

section \<open>addScore\<close>

text \<open>
  For a game of the store (the first with the given id), \<open>addScore\<close> builds a score from the
  submitted fields, with \<open>isTime\<close> copied from the game and \<open>achievedAt\<close> the current time,
  and saves a copy of the game whose scores list is the old one with that score appended at
  the end. When the save succeeds, it returns \<open>true\<close> and that copy replaces the game in the
  store, the other games staying in place; when the save fails or throws, it returns
  \<open>false\<close> and the games are unchanged.
\<close>

lemma addScore_appends_score:
  assumes f: "find (\<lambda>g. game_id g = gameId) (games st) = Some g"
    and n: "newScore = \<lparr>score_id = new_id, playerId = pid, playerName = pname, score_value = v,
                        isTime = isTimeBased g, achievedAt = DateMs now, score_notes = nts\<rparr>"
  shows "(saved (fst (svc_saveGame svc (g\<lparr>scores := scores g @ [newScore]\<rparr>) b)) \<longrightarrow>
            fst (addScore svc new_id now gameId pid pname v nts (st, b)) = True \<and>
            (\<exists>i < length (games st). games st ! i = g \<and>
               (\<forall>j < i. game_id (games st ! j) \<noteq> gameId) \<and>
               games (fst (snd (addScore svc new_id now gameId pid pname v nts (st, b))))
                 = (games st)[i := g\<lparr>scores := scores g @ [newScore]\<rparr>])) \<and>
         (\<not> saved (fst (svc_saveGame svc (g\<lparr>scores := scores g @ [newScore]\<rparr>) b)) \<longrightarrow>
            fst (addScore svc new_id now gameId pid pname v nts (st, b)) = False \<and>
            games (fst (snd (addScore svc new_id now gameId pid pname v nts (st, b)))) = games st)"
proof -
  let ?u = "g\<lparr>scores := scores g @ [newScore]\<rparr>"
  have "svc_saveGame svc ?u b = (fst (svc_saveGame svc ?u b), snd (svc_saveGame svc ?u b))" by simp
  from addScore_result[OF f this[unfolded n]] show ?thesis unfolding n by auto
qed

text \<open>
  Claim C8. The claim has a successful \<open>addScore\<close> refresh the game's \<open>updatedAt\<close>. The code
  does not: a score added at time 5000 to the sample game as loaded with \<open>updatedAt\<close> 1000
  is saved and appended (the call returns \<open>true\<close>, the list grows from two scores to
  three), and the game's \<open>updatedAt\<close> is still 1000. On the sample game as the constructor
  builds it, the field is missing before and after.
\<close>

theorem addScore_keeps_updatedAt:
  "fst (addScore StorageService ''s3'' 5000 ''racing'' ''alice'' ''Alice'' 90 None
          (dated_store, fresh_storage)) = True \<and>
   map updatedAt (games dated_store) = [DateMs 1000] \<and>
   map updatedAt (games (fst (snd (addScore StorageService ''s3'' 5000 ''racing'' ''alice'' ''Alice'' 90
                                      None (dated_store, fresh_storage))))) = [DateMs 1000] \<and>
   map score_id (scores (hd (games (fst (snd (addScore StorageService ''s3'' 5000 ''racing'' ''alice''
                                                ''Alice'' 90 None (dated_store, fresh_storage)))))))
     = [''s1'', ''s2'', ''s3''] \<and>
   fst (addScore StorageService ''s3'' 5000 ''racing'' ''alice'' ''Alice'' 90 None
          (sample_store, fresh_storage)) = True \<and>
   map updatedAt (games (fst (snd (addScore StorageService ''s3'' 5000 ''racing'' ''alice'' ''Alice'' 90
                                      None (sample_store, fresh_storage))))) = [Undefined]"
  by (simp add: addScore_def storage_eval dated_store_def dated_game_def sample_store_def
        initializeSampleData_def)

text \<open>
  \<open>addScore\<close> does not look at the value: a score of -5 for the sample game is saved and
  appended.
\<close>

theorem addScore_accepts_negative:
  "fst (addScore StorageService ''s3'' 5000 ''racing'' ''alice'' ''Alice'' (-5) None (sample_store, fresh_storage)) = True \<and>
   map score_value
       (scores (hd (games (fst (snd (addScore StorageService ''s3'' 5000 ''racing'' ''alice'' ''Alice''
                                       (-5) None (sample_store, fresh_storage)))))))
     = [191 / 2, 491 / 5, -5]"
  by (simp add: addScore_def storage_eval sample_store_def initializeSampleData_def)

text \<open>
  Two games whose names differ only in case: \<open>createGame\<close> does not compare names, and both
  calls succeed.
\<close>

theorem createGame_twice_same_name:
  "fst (createGame StorageService ''g2'' ''Racing'' None False (sample_store, fresh_storage)) = Some ''g2'' \<and>
   fst (createGame StorageService ''g3'' ''racing'' None False
          (snd (createGame StorageService ''g2'' ''Racing'' None False (sample_store, fresh_storage))))
     = Some ''g3'' \<and>
   map game_name
     (games (fst (snd (createGame StorageService ''g3'' ''racing'' None False
          (snd (createGame StorageService ''g2'' ''Racing'' None False (sample_store, fresh_storage)))))))
     = [''Racing Game'', ''Racing'', ''racing'']"
  by (simp add: createGame_def storage_eval sample_store_def initializeSampleData_def)

section \<open>The forms in front of the store\<close>

lemma update_not_Nil: "AList.update k v xs \<noteq> []"
  by (cases xs) auto

lemma map_of_update_other: "k' \<noteq> k \<Longrightarrow> map_of (AList.update k v xs) k' = map_of xs k'"
  by (simp add: update_conv')

lemma map_of_update_same: "map_of (AList.update k v xs) k = Some v"
  by (simp add: update_conv')

lemma find_Some_ex: "\<exists>x \<in> set xs. P x \<Longrightarrow> \<exists>y. find P xs = Some y"
  by (induction xs) auto

text \<open>
  Claim C6, as amended. The check for an existing name is made by the form, not by the store:
  when the store holds a game whose lower-cased name equals the trimmed, lower-cased name of
  the form, \<open>validateForm\<close> reports "A game with this name already exists" for the name,
  and \<open>handleSubmit\<close> shows the errors and returns without calling \<open>createGame\<close>, so that
  the store and the backend are unchanged.
\<close>

theorem duplicate_name_stopped_by_form:
  assumes "\<exists>game \<in> set (games st).
             toLowerCase (game_name game) = toLowerCase (trim (form_name formData))"
  shows "map_of (AddGameForm_validateForm st formData) ''name''
           = Some ''A game with this name already exists'' \<and>
         AddGameForm_handleSubmit svc new_id formData (st, b)
           = (AddGameForm_validateForm st formData, None, st, b)"
proof -
  from find_Some_ex[OF assms] obtain y where
    y: "find (\<lambda>game. toLowerCase (game_name game) = toLowerCase (trim (form_name formData)))
          (games st) = Some y" by blast
  have n: "map_of (AddGameForm_validateForm st formData) ''name''
             = Some ''A game with this name already exists''"
    using y by (simp add: AddGameForm_validateForm_def Let_def map_of_update_other map_of_update_same)
  then have "AddGameForm_validateForm st formData \<noteq> []" by auto
  with n show ?thesis by (simp add: AddGameForm_handleSubmit_def Let_def)
qed

text \<open>An instance: the form filled with "  racing GAME " against the sample game "Racing Game".\<close>

theorem duplicate_name_stopped_by_form_witness:
  "(\<exists>game \<in> set (games sample_store).
      toLowerCase (game_name game) =
        toLowerCase (trim (form_name \<lparr>form_name = ''  racing GAME '', form_description = '''',
                                      form_isTimeBased = False\<rparr>))) \<and>
   AddGameForm_handleSubmit StorageService ''g2''
       \<lparr>form_name = ''  racing GAME '', form_description = '''', form_isTimeBased = False\<rparr>
       (sample_store, fresh_storage)
     = ([(''name'', ''A game with this name already exists'')], None, sample_store, fresh_storage)"
proof -
  let ?f = "\<lparr>form_name = ''  racing GAME '', form_description = '''', form_isTimeBased = False\<rparr>"
  have t: "toLowerCase (trim ''  racing GAME '') = ''racing game''"
    by (simp add: toLowerCase_def trim_def is_space_def lower_char_def)
  have l: "toLowerCase ''Racing Game'' = ''racing game''"
    by (simp add: toLowerCase_def lower_char_def)
  have h: "\<exists>game \<in> set (games sample_store).
             toLowerCase (game_name game) = toLowerCase (trim (form_name ?f))"
    by (simp add: sample_store_def initializeSampleData_def t l)
  have v: "AddGameForm_validateForm sample_store ?f
             = [(''name'', ''A game with this name already exists'')]"
    by (simp add: AddGameForm_validateForm_def Let_def sample_store_def initializeSampleData_def
          toLowerCase_def lower_char_def trim_def is_space_def)
  from duplicate_name_stopped_by_form[OF h, of StorageService "''g2''" fresh_storage] h v
  show ?thesis by simp
qed

text \<open>What passes the score form's validation is a finite number from 0 to 999999999.\<close>

lemma validateForm_passed_finite:
  assumes "AddScoreForm_validateForm parseFloat formData = []"
  shows "\<exists>v. parseFloat (scoreValue formData) = Finite v \<and> 0 \<le> v \<and> v \<le> 999999999"
proof (cases "parseFloat (scoreValue formData)")
  case NaN
  with assms show ?thesis
    by (simp add: AddScoreForm_validateForm_def Let_def update_not_Nil split: if_splits)
next
  case (Finite x)
  with assms show ?thesis
    by (simp add: AddScoreForm_validateForm_def Let_def update_not_Nil not_less split: if_splits)
next
  case PosInfinity
  with assms show ?thesis
    by (simp add: AddScoreForm_validateForm_def Let_def update_not_Nil split: if_splits)
next
  case NegInfinity
  with assms show ?thesis
    by (simp add: AddScoreForm_validateForm_def Let_def update_not_Nil split: if_splits)
qed

text \<open>
  Claim C7, as amended. The rejection of a negative score is made by the form, not by the
  store: when the parsed score value is less than 0, \<open>validateForm\<close> reports an error for
  the score value ("Score cannot be negative", unless the field is blank), and
  \<open>handleSubmit\<close> shows the errors and returns without calling \<open>addScore\<close>, so that the
  store and the backend are unchanged.
\<close>

theorem negative_score_stopped_by_form:
  assumes "js_lt (parseFloat (scoreValue formData)) 0"
  shows "map_of (AddScoreForm_validateForm parseFloat formData) ''scoreValue''
           = Some (if trim (scoreValue formData) = [] then ''Score value is required''
                   else ''Score cannot be negative'') \<and>
         AddScoreForm_handleSubmit svc parseFloat player_uuid player_now score_uuid now formData sb
           = (AddScoreForm_validateForm parseFloat formData, False, sb)"
proof -
  from assms have nn: "\<not> isNaN (parseFloat (scoreValue formData))"
    by (cases "parseFloat (scoreValue formData)") simp_all
  have n: "map_of (AddScoreForm_validateForm parseFloat formData) ''scoreValue''
           = Some (if trim (scoreValue formData) = [] then ''Score value is required''
                   else ''Score cannot be negative'')"
    using assms nn
    by (simp add: AddScoreForm_validateForm_def Let_def map_of_update_other map_of_update_same)
  then have "AddScoreForm_validateForm parseFloat formData \<noteq> []" by auto
  with n show ?thesis by (simp add: AddScoreForm_handleSubmit_def Let_def)
qed

text \<open>An instance: the score form filled with "-5".\<close>

theorem negative_score_stopped_by_form_witness:
  "js_lt (sample_parseFloat (scoreValue negative_form)) 0 \<and>
   AddScoreForm_handleSubmit StorageService sample_parseFloat ''p3'' 4000 ''s3'' 5000 negative_form
       (sample_store, fresh_storage)
     = ([(''scoreValue'', ''Score cannot be negative'')], False, sample_store, fresh_storage)"
proof -
  have h: "js_lt (sample_parseFloat (scoreValue negative_form)) 0"
    by (simp add: sample_parseFloat_def negative_form_def)
  have v: "AddScoreForm_validateForm sample_parseFloat negative_form
             = [(''scoreValue'', ''Score cannot be negative'')]"
    by (simp add: AddScoreForm_validateForm_def Let_def trim_def is_space_def
          sample_parseFloat_def negative_form_def)
  from negative_score_stopped_by_form[of sample_parseFloat negative_form StorageService
         "''p3''" 4000 "''s3''" 5000 "(sample_store, fresh_storage)"] h v
  show ?thesis by simp
qed

section \<open>Concrete instances\<close>

text \<open>
  The tie game: Alice's scores are 9, 9 and 5 in a score-based game. Her best score is the
  first 9.
\<close>

theorem getBestScore_first_best_witness:
  "find (\<lambda>g. game_id g = ''arcade'') (games tie_store) = Some tie_game \<and>
   (\<exists>s \<in> set (scores tie_game). playerId s = ''alice'') \<and>
   getBestScore tie_store ''arcade'' ''alice'' = Some tie1 \<and>
   (\<exists>ys r zs. scores tie_game = ys @ r # zs \<and>
      getBestScore tie_store ''arcade'' ''alice'' = Some r \<and> playerId r = ''alice'' \<and>
      (\<forall>y \<in> set ys. playerId y = ''alice'' \<longrightarrow> beats (isTimeBased tie_game) r y) \<and>
      (\<forall>z \<in> set zs. playerId z = ''alice'' \<longrightarrow> no_worse (isTimeBased tie_game) r z))"
proof -
  have f: "find (\<lambda>g. game_id g = ''arcade'') (games tie_store) = Some tie_game"
    by (simp add: tie_store_def tie_game_def)
  have s: "\<exists>s \<in> set (scores tie_game). playerId s = ''alice''"
    by (simp add: tie_game_def tie1_def)
  have b: "getBestScore tie_store ''arcade'' ''alice'' = Some tie1"
    by (simp add: getBestScore_def tie_store_def tie_game_def tie1_def tie2_def tie3_def better_def)
  from getBestScore_first_best[OF f s] f s b show ?thesis by simp
qed

text \<open>
  Best first and worst first on the tie game: the two scores of value 9 are in the order of
  the list both times, so the best-first sequence is not the reverse of the worst-first one.
\<close>

theorem getScores_ties_not_reversed:
  "getScores tie_store ''arcade'' BEST_FIRST None = Inr [tie1, tie2, tie3] \<and>
   getScores tie_store ''arcade'' WORST_FIRST None = Inr [tie3, tie1, tie2] \<and>
   [tie1, tie2, tie3] \<noteq> rev [tie3, tie1, tie2]"
  by (simp add: getScores_def apply_filter_def apply_limit_def js_sort_def
        tie_store_def tie_game_def tie1_def tie2_def tie3_def)

text \<open>
  The sample game has two different values; there the sequences are reverses. On the tie
  game the scores of value 9 stand in the order of the game's list.
\<close>

theorem getScores_best_worst_reverse_witness:
  "getScores sample_store ''racing'' WORST_FIRST None = Inr (rev (scores (hd (games sample_store)))) \<and>
   distinct (map score_value (rev (scores (hd (games sample_store))))) \<and>
   getScores sample_store ''racing'' BEST_FIRST None = Inr (scores (hd (games sample_store))) \<and>
   find (\<lambda>g. game_id g = ''arcade'') (games tie_store) = Some tie_game \<and>
   getScores tie_store ''arcade'' WORST_FIRST None = Inr [tie3, tie1, tie2] \<and>
   filter (\<lambda>s. score_value s = 9) [tie3, tie1, tie2] = filter (\<lambda>s. score_value s = 9) (scores tie_game)"
proof -
  have w: "getScores sample_store ''racing'' WORST_FIRST None
             = Inr (rev (scores (hd (games sample_store))))"
    by (simp add: getScores_def apply_filter_def apply_limit_def js_sort_def
          sample_store_def initializeSampleData_def)
  have d: "distinct (map score_value (rev (scores (hd (games sample_store)))))"
    by (simp add: sample_store_def initializeSampleData_def)
  from getScores_best_worst_reverse[of sample_store "''racing''"] w d
  have b: "getScores sample_store ''racing'' BEST_FIRST None = Inr (scores (hd (games sample_store)))"
    by auto
  have f: "find (\<lambda>g. game_id g = ''arcade'') (games tie_store) = Some tie_game"
    by (simp add: tie_store_def tie_game_def)
  have tw: "getScores tie_store ''arcade'' WORST_FIRST None = Inr [tie3, tie1, tie2]"
    by (simp add: getScores_def apply_filter_def apply_limit_def js_sort_def
          tie_store_def tie_game_def tie1_def tie2_def tie3_def)
  from getScores_best_worst_reverse[of tie_store "''arcade''"] obtain bs ws where
    "getScores tie_store ''arcade'' WORST_FIRST None = Inr ws"
    and s: "\<forall>g. find (\<lambda>g. game_id g = ''arcade'') (games tie_store) = Some g \<longrightarrow>
              (\<forall>k. filter (\<lambda>s. score_value s = k) ws = filter (\<lambda>s. score_value s = k) (scores g))"
    by blast
  with tw have "ws = [tie3, tie1, tie2]" by simp
  with s f have "filter (\<lambda>s. score_value s = 9) [tie3, tie1, tie2]
                   = filter (\<lambda>s. score_value s = 9) (scores tie_game)" by blast
  with w d b f tw show ?thesis by blast
qed

text \<open>
  The lap game: Alice's best time is her second, 95, and Bob's his second, 98; Carol has no
  score. The board is Alice with 95, then Bob with 98; cut to one entry it is Alice.
\<close>

theorem getLeaderboard_entries_witness:
  "find (\<lambda>g. game_id g = ''sprint'') (games lap_store) = Some lap_game \<and>
   length (filter (has_score lap_game) (players lap_store)) = 2 \<and>
   map bestScore (getLeaderboard lap_store ''sprint'' None) = [lap3, lap4] \<and>
   map player_id (map player (getLeaderboard lap_store ''sprint'' None)) = [''alice'', ''bob''] \<and>
   map bestScore (getLeaderboard lap_store ''sprint'' (Some 1)) = [lap3] \<and>
   length (getLeaderboard lap_store ''sprint'' (Some 1)) = 1 \<and>
   ranked True (getLeaderboard lap_store ''sprint'' (Some 1)) \<and>
   list_all (\<lambda>e. getBestScore lap_store ''sprint'' (player_id (player e)) = Some (bestScore e))
     (getLeaderboard lap_store ''sprint'' (Some 1))"
proof -
  have f: "find (\<lambda>g. game_id g = ''sprint'') (games lap_store) = Some lap_game"
    by (simp add: lap_store_def lap_game_def)
  have h: "length (filter (has_score lap_game) (players lap_store)) = 2"
    by (simp add: has_score_def lap_store_def lap_game_def lap1_def lap2_def lap3_def lap4_def
          carol_def sample_store_def initializeSampleData_def)
  have t: "isTimeBased lap_game" by (simp add: lap_game_def)
  have full: "map bestScore (getLeaderboard lap_store ''sprint'' None) = [lap3, lap4] \<and>
              map player_id (map player (getLeaderboard lap_store ''sprint'' None)) = [''alice'', ''bob'']"
    by (simp add: getLeaderboard_def getBestScore_def better_def js_sort_def slice0_def
          lap_store_def lap_game_def lap1_def lap2_def lap3_def lap4_def carol_def
          sample_store_def initializeSampleData_def)
  have one: "map bestScore (getLeaderboard lap_store ''sprint'' (Some 1)) = [lap3]"
    by (simp add: getLeaderboard_def getBestScore_def better_def js_sort_def slice0_def
          lap_store_def lap_game_def lap1_def lap2_def lap3_def lap4_def carol_def
          sample_store_def initializeSampleData_def)
  have lim: "Some (1::int) = Some (int 1) \<or> (Some (1::int) = None \<and> (1::nat) = 10)" by simp
  from getLeaderboard_entries[OF f lim]
  have "length (getLeaderboard lap_store ''sprint'' (Some 1))
          = min 1 (length (filter (has_score lap_game) (players lap_store)))"
    and "ranked (isTimeBased lap_game) (getLeaderboard lap_store ''sprint'' (Some 1))"
    and "\<forall>e \<in> set (getLeaderboard lap_store ''sprint'' (Some 1)).
           getBestScore lap_store ''sprint'' (player_id (player e)) = Some (bestScore e)"
    by blast+
  with f h t full one show ?thesis by (simp add: list_all_iff)
qed

text \<open>A negative limit is no count: \<open>slice\<close> then drops entries from the end.\<close>

lemma getLeaderboard_negative_limit:
  "length (getLeaderboard sample_store ''racing'' (Some (- 1))) = 1"
  by (simp add: getLeaderboard_def getBestScore_def js_sort_def slice0_def
        sample_store_def initializeSampleData_def)

text \<open>Saving and loading the sample game with its timestamps set, over a working storage.\<close>

theorem save_then_load_witness:
  "valid_game valid_sample \<and> game_id valid_sample \<noteq> ''__proto__'' \<and>
   \<not> getItem_throws fresh_storage \<and> \<not> setItem_throws fresh_storage \<and>
   ls_item fresh_storage \<noteq> Some JsonNull \<and>
   fst (saveGame valid_sample fresh_storage) = Resolved (ApiResponse True (Some True) None) \<and>
   fst (loadGame ''racing'' (snd (saveGame valid_sample fresh_storage)))
     = Resolved (ApiResponse True (Some valid_sample) None)"
proof -
  have v: "valid_game valid_sample"
    by (simp add: valid_game_def valid_time_def valid_sample_def dated_game_def sample_store_def
          initializeSampleData_def)
  have i: "game_id valid_sample = ''racing''"
    by (simp add: valid_sample_def dated_game_def sample_store_def initializeSampleData_def)
  have p: "game_id valid_sample \<noteq> ''__proto__''" by (simp add: i)
  have s: "\<not> getItem_throws fresh_storage" "\<not> setItem_throws fresh_storage"
    "ls_item fresh_storage \<noteq> Some JsonNull"
    by (simp_all add: fresh_storage_def)
  from save_then_load[OF v p s] v i p s show ?thesis by simp
qed

text \<open>
  The same valid game under the id \<open>__proto__\<close>: \<open>saveGame\<close> reports success and stores
  nothing, and \<open>loadGame\<close> fails on the inherited property. And over a storage whose writes
  throw, \<open>saveGame\<close> of the valid sample game still reports success, and \<open>loadGame\<close> then
  finds no game.
\<close>

theorem save_then_load_fails:
  "valid_game proto_sample \<and>
   fst (saveGame proto_sample fresh_storage) = Resolved (ApiResponse True (Some True) None) \<and>
   fst (loadGame (game_id proto_sample) (snd (saveGame proto_sample fresh_storage)))
     = Resolved (ApiResponse False None (Some type_error_text)) \<and>
   valid_game valid_sample \<and>
   fst (saveGame valid_sample full_storage) = Resolved (ApiResponse True (Some True) None) \<and>
   fst (loadGame (game_id valid_sample) (snd (saveGame valid_sample full_storage)))
     = Resolved (ApiResponse False None (Some ''Game not found''))"
  by (simp add: storage_eval valid_game_def valid_time_def proto_sample_def valid_sample_def
        dated_game_def sample_store_def initializeSampleData_def)

text \<open>
  A game as the store creates it has no timestamps and is not valid in that sense: it comes
  back from storage with an invalid date in both fields.
\<close>

lemma store_created_game_loads_changed:
  "fst (loadGame ''racing'' (snd (saveGame (hd (games sample_store)) fresh_storage)))
     = Resolved (ApiResponse True
         (Some ((hd (games sample_store))\<lparr>createdAt := InvalidDate, updatedAt := InvalidDate\<rparr>)) None)"
  by (simp add: storage_eval sample_store_def initializeSampleData_def)

text \<open>An unknown game id against the sample store.\<close>

theorem addScore_unknown_game_witness:
  "''chess'' \<notin> game_id ` set (games sample_store) \<and>
   fst (addScore StorageService ''s3'' 2000 ''chess'' ''alice'' ''Alice'' 5 None
          (sample_store, fresh_storage)) = False \<and>
   games (fst (snd (addScore StorageService ''s3'' 2000 ''chess'' ''alice'' ''Alice'' 5 None
                      (sample_store, fresh_storage)))) = games sample_store"
proof -
  have h: "''chess'' \<notin> game_id ` set (games sample_store)"
    by (simp add: sample_store_def initializeSampleData_def)
  from addScore_unknown_game[OF h, of StorageService "''s3''" 2000 "''alice''" "''Alice''" 5 None
         fresh_storage] h
  show ?thesis by simp
qed

text \<open>The session \<open>demo_state\<close> is reachable, and its only game comes from storage.\<close>

theorem reachable_scores_match_witness:
  "reachable demo_state \<and>
   map game_id (games (fst demo_state)) = [''chess''] \<and>
   list_all scores_match (games (fst demo_state))"
proof -
  have n: "ls_item fresh_storage = None" by (simp add: fresh_storage_def)
  have r: "reachable demo_state"
    unfolding demo_state_def sample_store_def
    by (intro do_loadGames do_addScore do_createGame first_load n)
  have g: "map game_id (games (fst demo_state)) = [''chess'']"
    by (simp add: demo_state_def loadGames_def createGame_def addScore_def storage_eval js_sort_def
          sample_store_def initializeSampleData_def)
  from reachable_scores_match[of "fst demo_state" "snd demo_state"] r g show ?thesis
    by (simp add: list_all_iff scores_match_def)
qed

end
